theory Spec2Isabelle
  imports Complex_Main "HOL-Library.Log_Nat"
begin

section \<open>JavaScript numbers\<close>

text \<open>
  A \<open>number\<close> of the source is an IEEE 754 binary64 value: a finite value, which is a
  rational \<open>m * 2 ^ q\<close> with \<open>\<bar>m\<bar> < 2 ^ 53\<close> and \<open>- 1074 \<le> q \<le> 971\<close>, one of the two
  infinities, or \<open>NaN\<close>. The two zeros are one value here: the functions below add,
  multiply, round and compare numbers and never divide by one, and under these operations
  \<open>+0\<close> and \<open>-0\<close> cannot be told apart.
\<close>

datatype number = Num rat | Infinity | NegInfinity | NaN

text \<open>The nearest integer, a tie going to the even one.\<close>

definition roundHalfEven :: "rat \<Rightarrow> int" where
  "roundHalfEven y =
     (let f = \<lfloor>y\<rfloor>; d = y - of_int f
      in if d < 1 / 2 then f else if 1 / 2 < d then f + 1 else if even f then f else f + 1)"

text \<open>For \<open>x \<noteq> 0\<close>, the exponent \<open>e\<close> with \<open>2 ^ e \<le> \<bar>x\<bar> < 2 ^ (e + 1)\<close>.\<close>

definition ilog2 :: "rat \<Rightarrow> int" where
  "ilog2 x =
     (if 1 \<le> \<bar>x\<bar> then bitlen \<lfloor>\<bar>x\<bar>\<rfloor> - 1 else - bitlen (\<lceil>1 / \<bar>x\<bar>\<rceil> - 1))"

text \<open>
  The result of an arithmetic operation is its exact result rounded to binary64, to the
  nearest value and to the even significand on a tie: \<open>x\<close> is rounded to a multiple
  \<open>m * 2 ^ q\<close> of the spacing \<open>2 ^ q\<close> of the values around it (53 significant bits, and
  never finer than \<open>2 ^ - 1074\<close>), and the result is an infinity when the rounded value
  reaches \<open>2 ^ 1024\<close>, that is when \<open>q\<close> plus the bit length of \<open>m\<close> is above 1024.
\<close>

definition fl :: "rat \<Rightarrow> number" where
  "fl x =
     (if x = 0 then Num 0
      else (let q = max (ilog2 x - 52) (- 1074);
                m = roundHalfEven (x / 2 powi q)
            in if 1024 < q + bitlen \<bar>m\<bar> then (if 0 < x then Infinity else NegInfinity)
               else Num (of_int m * 2 powi q)))"

instantiation number :: "{plus, times, ord}"
begin

fun plus_number :: "number \<Rightarrow> number \<Rightarrow> number" where
  "plus_number (Num a) (Num b) = fl (a + b)"
| "plus_number NaN y = NaN"
| "plus_number x NaN = NaN"
| "plus_number Infinity NegInfinity = NaN"
| "plus_number NegInfinity Infinity = NaN"
| "plus_number Infinity y = Infinity"
| "plus_number NegInfinity y = NegInfinity"
| "plus_number x Infinity = Infinity"
| "plus_number x NegInfinity = NegInfinity"

fun times_number :: "number \<Rightarrow> number \<Rightarrow> number" where
  "times_number (Num a) (Num b) = fl (a * b)"
| "times_number NaN y = NaN"
| "times_number x NaN = NaN"
| "times_number Infinity (Num b) =
     (if b = 0 then NaN else if 0 < b then Infinity else NegInfinity)"
| "times_number NegInfinity (Num b) =
     (if b = 0 then NaN else if 0 < b then NegInfinity else Infinity)"
| "times_number (Num a) Infinity =
     (if a = 0 then NaN else if 0 < a then Infinity else NegInfinity)"
| "times_number (Num a) NegInfinity =
     (if a = 0 then NaN else if 0 < a then NegInfinity else Infinity)"
| "times_number Infinity Infinity = Infinity"
| "times_number NegInfinity NegInfinity = Infinity"
| "times_number Infinity NegInfinity = NegInfinity"
| "times_number NegInfinity Infinity = NegInfinity"

fun less_number :: "number \<Rightarrow> number \<Rightarrow> bool" where
  "less_number (Num a) (Num b) = (a < b)"
| "less_number NaN y = False"
| "less_number x NaN = False"
| "less_number x NegInfinity = False"
| "less_number Infinity y = False"
| "less_number NegInfinity y = True"
| "less_number x Infinity = True"

fun less_eq_number :: "number \<Rightarrow> number \<Rightarrow> bool" where
  "less_eq_number (Num a) (Num b) = (a \<le> b)"
| "less_eq_number NaN y = False"
| "less_eq_number x NaN = False"
| "less_eq_number NegInfinity y = True"
| "less_eq_number x Infinity = True"
| "less_eq_number x NegInfinity = False"
| "less_eq_number Infinity y = False"

instance ..

end

text \<open>
  \<open>Math.round\<close>: the nearest integer, a tie going towards plus infinity; the infinities and
  \<open>NaN\<close> are returned as they are. The result is exact, as the integers next to a
  binary64 value are binary64 values.
\<close>

fun Math_round :: "number \<Rightarrow> number" where
  "Math_round (Num a) = Num (of_int \<lfloor>a + 1 / 2\<rfloor>)"
| "Math_round x = x"

section \<open>Cart state container (CartContext)\<close>

text \<open>
  The optional display fields of a \<open>CartItem\<close> (menu item, size, customisation, image) are
  never read by the functions below and are left out of the record. The quantity and the
  price are numbers.
\<close>

datatype item_type = menu_item | custom_pizza | deal

record CartItem =
  id :: string
  type :: item_type
  quantity :: number
  totalPrice :: number
  name :: string

record Totals =
  subtotal :: number
  deliveryFee :: number
  tax :: number
  total :: number

record CartState = Totals +
  items :: "CartItem list"
  isLoading :: bool

datatype CartAction =
    ADD_ITEM CartItem
  | REMOVE_ITEM string
  | UPDATE_QUANTITY string number
  | CLEAR_CART
  | LOAD_CART "CartItem list"
  | SET_LOADING bool

definition initialState :: CartState where
  "initialState =
     \<lparr>subtotal = Num 0, deliveryFee = Num 0, tax = Num 0, total = Num 0, items = [],
      isLoading = False\<rparr>"

text \<open>The literal \<open>0.15\<close> of the source is the binary64 value nearest to 15 / 100.\<close>

definition literal_0_15 :: number where
  "literal_0_15 = fl (15 / 100)"

definition calculateTotals :: "CartItem list \<Rightarrow> Totals" where
  "calculateTotals its =
     (let subtotal = foldl (\<lambda>sum item. sum + totalPrice item) (Num 0) its;
          deliveryFee = (if subtotal > Num 1000 then Num 0 else Num 150);
          tax = Math_round (subtotal * literal_0_15);
          total = subtotal + deliveryFee + tax
      in \<lparr>subtotal = subtotal, deliveryFee = deliveryFee, tax = tax, total = total\<rparr>)"

text \<open>
  \<open>Array.prototype.findIndex\<close>: the first index whose element passes, or \<open>-1\<close>. An index
  is a whole number far below \<open>2 ^ 53\<close>, where the arithmetic of the source is exact.
\<close>

fun findIndexFrom :: "('a \<Rightarrow> bool) \<Rightarrow> 'a list \<Rightarrow> int \<Rightarrow> int" where
  "findIndexFrom P [] i = - 1"
| "findIndexFrom P (x # xs) i = (if P x then i else findIndexFrom P xs (i + 1))"

definition findIndex :: "('a \<Rightarrow> bool) \<Rightarrow> 'a list \<Rightarrow> int" where
  "findIndex P xs = findIndexFrom P xs 0"

text \<open>\<open>Array.prototype.map\<close> with the two-argument callback \<open>(item, index)\<close>.\<close>

fun mapIndexFrom :: "('a \<Rightarrow> int \<Rightarrow> 'b) \<Rightarrow> 'a list \<Rightarrow> int \<Rightarrow> 'b list" where
  "mapIndexFrom f [] i = []"
| "mapIndexFrom f (x # xs) i = f x i # mapIndexFrom f xs (i + 1)"

definition mapIndex :: "('a \<Rightarrow> int \<Rightarrow> 'b) \<Rightarrow> 'a list \<Rightarrow> 'b list" where
  "mapIndex f xs = mapIndexFrom f xs 0"

text \<open>
  What \<open>ADD_ITEM\<close> does to the list when the id is already there, written as a recursion
  on the list: the first element that passes is replaced.
\<close>

fun updateFirst :: "('a \<Rightarrow> bool) \<Rightarrow> ('a \<Rightarrow> 'a) \<Rightarrow> 'a list \<Rightarrow> 'a list" where
  "updateFirst P g [] = []"
| "updateFirst P g (x # xs) = (if P x then g x # xs else x # updateFirst P g xs)"

text \<open>The object spread \<open>{ ...state, items: newItems, ...totals }\<close>.\<close>

definition spreadTotals :: "CartState \<Rightarrow> CartItem list \<Rightarrow> Totals \<Rightarrow> CartState" where
  "spreadTotals state newItems totals =
     \<lparr>subtotal = subtotal totals, deliveryFee = deliveryFee totals, tax = tax totals,
      total = total totals, items = newItems, isLoading = isLoading state\<rparr>"

fun cartReducer :: "CartState \<Rightarrow> CartAction \<Rightarrow> CartState" where
  "cartReducer state (ADD_ITEM payload) =
     (let existingItemIndex = findIndex (\<lambda>item. id item = id payload) (items state);
          newItems =
            (if existingItemIndex \<ge> 0
             then mapIndex (\<lambda>item index.
                    if index = existingItemIndex
                    then item\<lparr>quantity := quantity item + quantity payload\<rparr>
                    else item) (items state)
             else items state @ [payload])
      in spreadTotals state newItems (calculateTotals newItems))"
| "cartReducer state (REMOVE_ITEM payload) =
     (let newItems = filter (\<lambda>item. id item \<noteq> payload) (items state)
      in spreadTotals state newItems (calculateTotals newItems))"
| "cartReducer state (UPDATE_QUANTITY payload_id payload_quantity) =
     (let newItems =
            filter (\<lambda>item. quantity item > Num 0)
              (map (\<lambda>item. if id item = payload_id
                           then item\<lparr>quantity := payload_quantity\<rparr> else item)
                 (items state))
      in spreadTotals state newItems (calculateTotals newItems))"
| "cartReducer state CLEAR_CART = initialState"
| "cartReducer state (LOAD_CART payload) =
     spreadTotals state payload (calculateTotals payload)"
| "cartReducer state (SET_LOADING payload) = state\<lparr>isLoading := payload\<rparr>"

text \<open>
  The provider's \<open>addItem\<close>, \<open>removeItem\<close> and \<open>updateQuantity\<close> dispatch one action
  each; a run of actions from the initial state is a left fold of the reducer.
\<close>

fun cartMutation :: "CartAction \<Rightarrow> bool" where
  "cartMutation (ADD_ITEM payload) = True"
| "cartMutation (REMOVE_ITEM payload) = True"
| "cartMutation (UPDATE_QUANTITY payload_id payload_quantity) = True"
| "cartMutation other = False"

text \<open>
  The same, with every added item carrying a quantity of at least one and every quantity
  set by an update being at least one unless it is not above zero, as any whole number is.
\<close>

fun cartMutationPositive :: "CartAction \<Rightarrow> bool" where
  "cartMutationPositive (ADD_ITEM payload) = (Num 1 \<le> quantity payload)"
| "cartMutationPositive (REMOVE_ITEM payload) = True"
| "cartMutationPositive (UPDATE_QUANTITY payload_id payload_quantity) =
     (Num 0 < payload_quantity \<longrightarrow> Num 1 \<le> payload_quantity)"
| "cartMutationPositive other = False"

definition runCart :: "CartAction list \<Rightarrow> CartState" where
  "runCart actions = foldl cartReducer initialState actions"

definition storedTotals :: "CartState \<Rightarrow> Totals" where
  "storedTotals state =
     \<lparr>subtotal = subtotal state, deliveryFee = deliveryFee state, tax = tax state,
      total = total state\<rparr>"

definition positiveQuantities :: "CartItem list \<Rightarrow> bool" where
  "positiveQuantities its = list_all (\<lambda>item. Num 1 \<le> quantity item) its"

definition quantitiesAboveZero :: "CartItem list \<Rightarrow> bool" where
  "quantitiesAboveZero its = list_all (\<lambda>item. Num 0 < quantity item) its"

text \<open>
  The cart of the scenario: item A was added with quantity 2 at unit price 500 and item B
  with quantity 1 at unit price 1000. The add paths of the application store
  \<open>totalPrice = price * quantity\<close> in the item.
\<close>

definition scenarioItem :: "string \<Rightarrow> number \<Rightarrow> number \<Rightarrow> CartItem" where
  "scenarioItem i qty price =
     \<lparr>id = i, type = menu_item, quantity = qty, totalPrice = price * qty, name = i\<rparr>"

definition scenarioCart :: "CartItem list" where
  "scenarioCart = [scenarioItem ''A'' (Num 2) (Num 500), scenarioItem ''B'' (Num 1) (Num 1000)]"

text \<open>An item given by its quantity and its total price.\<close>

definition pricedItem :: "string \<Rightarrow> number \<Rightarrow> number \<Rightarrow> CartItem" where
  "pricedItem i qty price =
     \<lparr>id = i, type = menu_item, quantity = qty, totalPrice = price, name = i\<rparr>"

section \<open>Remote cart store (CartSyncService)\<close>

text \<open>
  The remote table \<open>user_cart_sessions\<close> is a list of rows. The columns \<open>id\<close>,
  \<open>created_at\<close> and \<open>updated_at\<close> are filled in by the store and never read by the
  service, so a row keeps the other three. The store is taken to answer every request;
  the service itself swallows every failure of a request, so none of its functions throws.
\<close>

record CartSession =
  user_id :: string
  cart_items :: "CartItem list"
  total_amount :: number

text \<open>The query modifier \<open>.single()\<close>: the row when exactly one row matches, no data otherwise.\<close>

definition single :: "'a list \<Rightarrow> 'a option" where
  "single rows = (case rows of [] \<Rightarrow> None | [row] \<Rightarrow> Some row | _ # _ # _ \<Rightarrow> None)"

definition getCart :: "string \<Rightarrow> CartSession list \<Rightarrow> CartItem list" where
  "getCart userId user_cart_sessions =
     (case single (filter (\<lambda>row. user_id row = userId) user_cart_sessions) of
        None \<Rightarrow> []
      | Some data \<Rightarrow> cart_items data)"

definition syncCart ::
  "string \<Rightarrow> CartItem list \<Rightarrow> number \<Rightarrow> CartSession list \<Rightarrow> CartSession list" where
  "syncCart userId cartItems totalAmount user_cart_sessions =
     (case single (filter (\<lambda>row. user_id row = userId) user_cart_sessions) of
        Some existingCart \<Rightarrow>
          map (\<lambda>row. if user_id row = userId
                     then row\<lparr>cart_items := cartItems, total_amount := totalAmount\<rparr>
                     else row) user_cart_sessions
      | None \<Rightarrow>
          user_cart_sessions
            @ [\<lparr>user_id = userId, cart_items = cartItems, total_amount = totalAmount\<rparr>])"

text \<open>
  \<open>mergeAndSyncCart\<close> returns the merged cart (its \<open>error\<close> field is always \<open>null\<close>, as
  neither \<open>getCart\<close> nor \<open>syncCart\<close> throws) and leaves the table as \<open>syncCart\<close> wrote it.
  The parameter \<open>localTotal\<close> is not used by the source.
\<close>

definition mergeAndSyncCart ::
  "string \<Rightarrow> CartItem list \<Rightarrow> number \<Rightarrow> CartSession list
     \<Rightarrow> CartItem list \<times> CartSession list" where
  "mergeAndSyncCart userId localCart localTotal user_cart_sessions =
     (let serverCart = getCart userId user_cart_sessions;
          localIds = set (map id localCart);
          mergedCart =
            foldl (\<lambda>mergedCart serverItem.
                     if id serverItem \<notin> localIds then mergedCart @ [serverItem]
                     else mergedCart)
              localCart serverCart;
          newTotal = foldl (\<lambda>sum item. sum + totalPrice item) (Num 0) mergedCart
      in (mergedCart, syncCart userId mergedCart newTotal user_cart_sessions))"

text \<open>
  The provider's \<open>removeItem\<close> and \<open>updateQuantity\<close>: the reducer runs on the local
  state, and when a user with a non-empty id is signed in the new snapshot is pushed with
  \<open>syncCart\<close>. The snapshot is computed from the state the call was made in.
\<close>

definition removeItem ::
  "string option \<Rightarrow> string \<Rightarrow> CartState \<times> CartSession list
     \<Rightarrow> CartState \<times> CartSession list" where
  "removeItem user i = (\<lambda>(state, user_cart_sessions).
     (cartReducer state (REMOVE_ITEM i),
      (case user of
         None \<Rightarrow> user_cart_sessions
       | Some uid \<Rightarrow>
           if uid = [] then user_cart_sessions
           else (let totals = calculateTotals (filter (\<lambda>item. id item \<noteq> i) (items state))
                 in syncCart uid (filter (\<lambda>item. id item \<noteq> i) (items state))
                      (total totals) user_cart_sessions))))"

definition updateQuantity ::
  "string option \<Rightarrow> string \<Rightarrow> number \<Rightarrow> CartState \<times> CartSession list
     \<Rightarrow> CartState \<times> CartSession list" where
  "updateQuantity user i q = (\<lambda>(state, user_cart_sessions).
     (cartReducer state (UPDATE_QUANTITY i q),
      (case user of
         None \<Rightarrow> user_cart_sessions
       | Some uid \<Rightarrow>
           if uid = [] then user_cart_sessions
           else (let updatedItems =
                       map (\<lambda>item. if id item = i then item\<lparr>quantity := q\<rparr> else item)
                         (items state);
                     totals = calculateTotals updatedItems
                 in syncCart uid updatedItems (total totals) user_cart_sessions))))"

section \<open>Profiles and addresses in the remote store (UserProfileService)\<close>

record UserProfileRow =
  id :: string
  user_id :: string
  name :: "string option"
  email :: string
  phone :: "string option"
  avatar_url :: "string option"

text \<open>\<open>email.split('@')[0]\<close>: the text before the first \<open>@\<close>, the whole text when there is none.\<close>

definition emailLocalPart :: "string \<Rightarrow> string" where
  "emailLocalPart address = takeWhile (\<lambda>c. c \<noteq> CHR ''@'') address"

text \<open>
  The schema of \<open>user_profiles\<close> is not part of the repository. What the store decides on
  an insert is therefore a parameter: \<open>accepts\<close> tells whether the store takes the new row
  (its constraints and access policy), \<open>generatedId\<close> is the id it gives the row. An update
  read back with \<open>.select().single()\<close> reports an error unless exactly one row was
  touched; a write refused in this way leaves the table as it was. The default preferences
  created after a new profile live in another table and are not modelled. The result is
  the returned profile (\<open>None\<close> for \<open>null\<close>) and the table afterwards.
\<close>

definition getOrCreateProfile ::
  "(UserProfileRow list \<Rightarrow> UserProfileRow \<Rightarrow> bool) \<Rightarrow> (UserProfileRow list \<Rightarrow> string)
     \<Rightarrow> string \<Rightarrow> string \<Rightarrow> UserProfileRow list
     \<Rightarrow> UserProfileRow option \<times> UserProfileRow list" where
  "getOrCreateProfile accepts generatedId userId address user_profiles =
     (case single (filter (\<lambda>row. user_id row = userId) user_profiles) of
        Some existingProfile \<Rightarrow> (Some existingProfile, user_profiles)
      | None \<Rightarrow>
          (case single (filter (\<lambda>row. email row = address) user_profiles) of
             Some profileByEmail \<Rightarrow>
               (let updated =
                      map (\<lambda>row. if id row = id profileByEmail
                                 then row\<lparr>user_id := userId\<rparr> else row) user_profiles
                in case single (filter (\<lambda>row. id row = id profileByEmail) updated) of
                     None \<Rightarrow> (None, user_profiles)
                   | Some updatedProfile \<Rightarrow> (Some updatedProfile, updated))
           | None \<Rightarrow>
               (let newProfile =
                      \<lparr>id = generatedId user_profiles, user_id = userId,
                       name = Some (emailLocalPart address), email = address,
                       phone = None, avatar_url = None\<rparr>
                in if accepts user_profiles newProfile
                   then (Some newProfile, user_profiles @ [newProfile])
                   else (None, user_profiles))))"

record UserAddressRow =
  id :: string
  user_profile_id :: string
  title :: string
  street :: string
  city :: string
  zip_code :: string
  is_default :: bool
  created_at :: nat

text \<open>
  \<open>getAddresses\<close>: the rows of the profile, the default one first, then the newest first
  (\<open>created_at\<close> is a point in time, here a natural number). Rows that agree on both keys
  come in an order the store does not fix; the stable sort below is one such order.
\<close>

definition getAddresses :: "string \<Rightarrow> UserAddressRow list \<Rightarrow> UserAddressRow list" where
  "getAddresses userProfileId user_addresses =
     sort_key (\<lambda>row. \<not> is_default row)
       (sort_key (\<lambda>row. - int (created_at row))
          (filter (\<lambda>row. user_profile_id row = userProfileId) user_addresses))"

text \<open>The two updates that \<open>UserProfileService.setDefaultAddress\<close> sends, in this order.\<close>

definition unsetDefaults :: "string \<Rightarrow> UserAddressRow list \<Rightarrow> UserAddressRow list" where
  "unsetDefaults userProfileId user_addresses =
     map (\<lambda>row. if user_profile_id row = userProfileId
                then row\<lparr>is_default := False\<rparr> else row) user_addresses"

definition setNewDefault ::
  "string \<Rightarrow> string \<Rightarrow> UserAddressRow list \<Rightarrow> UserAddressRow list" where
  "setNewDefault addressId userProfileId user_addresses =
     map (\<lambda>row. if id row = addressId \<and> user_profile_id row = userProfileId
                then row\<lparr>is_default := True\<rparr> else row) user_addresses"

definition UserProfileService_setDefaultAddress ::
  "string \<Rightarrow> string \<Rightarrow> UserAddressRow list \<Rightarrow> UserAddressRow list" where
  "UserProfileService_setDefaultAddress addressId userProfileId user_addresses =
     setNewDefault addressId userProfileId (unsetDefaults userProfileId user_addresses)"

section \<open>User state container (UserContext)\<close>

record UserAddress =
  id :: string
  title :: string
  street :: string
  city :: string
  zip :: string
  isDefault :: bool

record UserProfile =
  id :: string
  name :: string
  email :: string
  phone :: string
  avatar :: "string option"
  addresses :: "UserAddress list"

text \<open>\<open>Partial<T>\<close>: each field is present or not; the spread takes the fields that are present.\<close>

record PartialUserAddress =
  id :: "string option"
  title :: "string option"
  street :: "string option"
  city :: "string option"
  zip :: "string option"
  isDefault :: "bool option"

record PartialUserProfile =
  id :: "string option"
  name :: "string option"
  email :: "string option"
  phone :: "string option"
  avatar :: "string option option"
  addresses :: "UserAddress list option"

record UserState =
  profile :: "UserProfile option"
  isLoading :: bool

datatype UserAction =
    SET_LOADING bool
  | SET_PROFILE UserProfile
  | UPDATE_PROFILE PartialUserProfile
  | ADD_ADDRESS UserAddress
  | UPDATE_ADDRESS string PartialUserAddress
  | DELETE_ADDRESS string
  | SET_DEFAULT_ADDRESS string

definition orElse :: "'a option \<Rightarrow> 'a \<Rightarrow> 'a" where
  "orElse new old = (case new of None \<Rightarrow> old | Some v \<Rightarrow> v)"

definition spreadAddress :: "UserAddress \<Rightarrow> PartialUserAddress \<Rightarrow> UserAddress" where
  "spreadAddress addr partial =
     \<lparr>UserAddress.id = orElse (PartialUserAddress.id partial) (UserAddress.id addr),
      title = orElse (PartialUserAddress.title partial) (UserAddress.title addr),
      street = orElse (PartialUserAddress.street partial) (UserAddress.street addr),
      city = orElse (PartialUserAddress.city partial) (UserAddress.city addr),
      zip = orElse (PartialUserAddress.zip partial) (UserAddress.zip addr),
      isDefault = orElse (PartialUserAddress.isDefault partial) (UserAddress.isDefault addr)\<rparr>"

definition spreadProfile :: "UserProfile \<Rightarrow> PartialUserProfile \<Rightarrow> UserProfile" where
  "spreadProfile prof partial =
     \<lparr>UserProfile.id = orElse (PartialUserProfile.id partial) (UserProfile.id prof),
      name = orElse (PartialUserProfile.name partial) (UserProfile.name prof),
      email = orElse (PartialUserProfile.email partial) (UserProfile.email prof),
      phone = orElse (PartialUserProfile.phone partial) (UserProfile.phone prof),
      avatar = orElse (PartialUserProfile.avatar partial) (UserProfile.avatar prof),
      addresses =
        orElse (PartialUserProfile.addresses partial) (UserProfile.addresses prof)\<rparr>"

fun userReducer :: "UserState \<Rightarrow> UserAction \<Rightarrow> UserState" where
  "userReducer state (SET_LOADING payload) = state\<lparr>isLoading := payload\<rparr>"
| "userReducer state (SET_PROFILE payload) = \<lparr>profile = Some payload, isLoading = False\<rparr>"
| "userReducer state (UPDATE_PROFILE payload) =
     (case profile state of
        None \<Rightarrow> state
      | Some prof \<Rightarrow> state\<lparr>profile := Some (spreadProfile prof payload)\<rparr>)"
| "userReducer state (ADD_ADDRESS payload) =
     (case profile state of
        None \<Rightarrow> state
      | Some prof \<Rightarrow>
          state\<lparr>profile :=
            Some (prof\<lparr>UserProfile.addresses := UserProfile.addresses prof @ [payload]\<rparr>)\<rparr>)"
| "userReducer state (UPDATE_ADDRESS payload_id payload_address) =
     (case profile state of
        None \<Rightarrow> state
      | Some prof \<Rightarrow>
          state\<lparr>profile :=
            Some (prof\<lparr>UserProfile.addresses :=
              map (\<lambda>addr. if UserAddress.id addr = payload_id
                           then spreadAddress addr payload_address else addr)
                (UserProfile.addresses prof)\<rparr>)\<rparr>)"
| "userReducer state (DELETE_ADDRESS payload) =
     (case profile state of
        None \<Rightarrow> state
      | Some prof \<Rightarrow>
          state\<lparr>profile :=
            Some (prof\<lparr>UserProfile.addresses :=
              filter (\<lambda>addr. UserAddress.id addr \<noteq> payload) (UserProfile.addresses prof)\<rparr>)\<rparr>)"
| "userReducer state (SET_DEFAULT_ADDRESS payload) =
     (case profile state of
        None \<Rightarrow> state
      | Some prof \<Rightarrow>
          state\<lparr>profile :=
            Some (prof\<lparr>UserProfile.addresses :=
              map (\<lambda>addr. addr\<lparr>UserAddress.isDefault := (UserAddress.id addr = payload)\<rparr>)
                (UserProfile.addresses prof)\<rparr>)\<rparr>)"

text \<open>The conversion of a remote address row to the local shape.\<close>

definition toLocalAddress :: "UserAddressRow \<Rightarrow> UserAddress" where
  "toLocalAddress addr =
     \<lparr>UserAddress.id = UserAddressRow.id addr, title = UserAddressRow.title addr,
      street = UserAddressRow.street addr, city = UserAddressRow.city addr,
      zip = zip_code addr, isDefault = is_default addr\<rparr>"

text \<open>
  The provider's \<open>setDefaultAddress\<close>. \<open>userId\<close> is what the local cache holds under the
  key \<open>userId\<close>. With a non-empty user id and a profile other than the guest profile
  \<open>default-user\<close>, the remote table is changed, the addresses are fetched again and the
  profile with the fetched addresses replaces the local one; otherwise only the reducer
  runs. The result of the service call is not inspected by the provider.
\<close>

definition setDefaultAddress ::
  "string option \<Rightarrow> string \<Rightarrow> UserState \<times> UserAddressRow list
     \<Rightarrow> UserState \<times> UserAddressRow list" where
  "setDefaultAddress userId i = (\<lambda>(state, user_addresses).
     (case profile state of
        None \<Rightarrow> (userReducer state (SET_DEFAULT_ADDRESS i), user_addresses)
      | Some prof \<Rightarrow>
          if userId \<noteq> None \<and> userId \<noteq> Some [] \<and> UserProfile.id prof \<noteq> ''default-user''
          then (let stored =
                      UserProfileService_setDefaultAddress i (UserProfile.id prof) user_addresses;
                    allAddresses = getAddresses (UserProfile.id prof) stored;
                    updatedProfile =
                      prof\<lparr>UserProfile.addresses := map toLocalAddress allAddresses\<rparr>
                in (userReducer state (SET_PROFILE updatedProfile), stored))
          else (userReducer state (SET_DEFAULT_ADDRESS i), user_addresses)))"

section \<open>Order state container (OrderContext)\<close>

text \<open>Of an order the reducer reads the id and the status, a string.\<close>

record ExtendedOrder =
  id :: string
  order_status :: string

record OrderState =
  orders :: "ExtendedOrder list"
  activeOrders :: "ExtendedOrder list"
  orderHistory :: "ExtendedOrder list"
  loading :: bool
  error :: "string option"

datatype OrderAction =
    SET_LOADING bool
  | SET_ORDERS "ExtendedOrder list"
  | ADD_ORDER ExtendedOrder
  | UPDATE_ORDER ExtendedOrder
  | SET_ERROR "string option"
  | CLEAR_ORDERS

definition initialOrderState :: OrderState where
  "initialOrderState =
     \<lparr>orders = [], activeOrders = [], orderHistory = [], loading = False, error = None\<rparr>"

definition isActive :: "ExtendedOrder \<Rightarrow> bool" where
  "isActive order =
     (order_status order
        \<in> set [''pending'', ''confirmed'', ''preparing'', ''ready'', ''out_for_delivery''])"

definition isHistory :: "ExtendedOrder \<Rightarrow> bool" where
  "isHistory order = (order_status order \<in> set [''delivered'', ''cancelled''])"

fun orderReducer :: "OrderState \<Rightarrow> OrderAction \<Rightarrow> OrderState" where
  "orderReducer state (SET_LOADING payload) = state\<lparr>loading := payload\<rparr>"
| "orderReducer state (SET_ORDERS payload) =
     state\<lparr>orders := payload, activeOrders := filter isActive payload,
           orderHistory := filter isHistory payload, loading := False, error := None\<rparr>"
| "orderReducer state (ADD_ORDER payload) =
     (let newOrders = payload # orders state
      in state\<lparr>orders := newOrders, activeOrders := filter isActive newOrders,
               orderHistory := filter isHistory newOrders\<rparr>)"
| "orderReducer state (UPDATE_ORDER payload) =
     (let updatedOrders =
            map (\<lambda>order. if ExtendedOrder.id order = ExtendedOrder.id payload
                          then payload else order) (orders state)
      in state\<lparr>orders := updatedOrders, activeOrders := filter isActive updatedOrders,
               orderHistory := filter isHistory updatedOrders\<rparr>)"
| "orderReducer state (SET_ERROR payload) = state\<lparr>error := payload, loading := False\<rparr>"
| "orderReducer state CLEAR_ORDERS =
     state\<lparr>orders := [], activeOrders := [], orderHistory := [], error := None\<rparr>"

definition runOrders :: "OrderAction list \<Rightarrow> OrderState" where
  "runOrders actions = foldl orderReducer initialOrderState actions"

section \<open>Example data\<close>

text \<open>Concrete carts, profiles and address tables on which the theorems below are instantiated.\<close>

definition exampleActions :: "CartAction list" where
  "exampleActions =
     [ADD_ITEM (scenarioItem ''A'' (Num 2) (Num 500)),
      ADD_ITEM (scenarioItem ''B'' (Num 1) (Num 1000)),
      UPDATE_QUANTITY ''A'' (Num 3), REMOVE_ITEM ''B'']"


definition halfQuantityActions :: "CartAction list" where
  "halfQuantityActions =
     [ADD_ITEM (scenarioItem ''A'' (Num 1) (Num 500)), UPDATE_QUANTITY ''A'' (Num (1 / 2))]"

definition zeroQuantityActions :: "CartAction list" where
  "zeroQuantityActions =
     [ADD_ITEM (pricedItem ''A'' (Num 0) (Num 500)), ADD_ITEM (pricedItem ''B'' (Num 1) (Num 300))]"

definition loadedActions :: "CartAction list" where
  "loadedActions = [LOAD_CART scenarioCart, CartAction.SET_LOADING False]"

definition localX :: CartItem where
  "localX = scenarioItem ''X'' (Num 2) (Num 500)"

definition remoteX :: CartItem where
  "remoteX = scenarioItem ''X'' (Num 5) (Num 500)"

definition remoteY :: CartItem where
  "remoteY = scenarioItem ''Y'' (Num 1) (Num 300)"

definition remoteXY :: "CartSession list" where
  "remoteXY =
     [\<lparr>CartSession.user_id = ''u1'', cart_items = [remoteX, remoteY],
       total_amount = Num 2800\<rparr>]"

definition guestProfile :: UserProfileRow where
  "guestProfile =
     \<lparr>UserProfileRow.id = ''p1'', user_id = ''guest'', name = Some ''Ann'',
      email = ''ann@x.org'', phone = None, avatar_url = None\<rparr>"

definition guestState :: UserState where
  "guestState =
     \<lparr>profile = Some
        \<lparr>UserProfile.id = ''default-user'', name = [], email = [], phone = [], avatar = None,
         addresses =
           [\<lparr>UserAddress.id = ''address_1'', title = ''Home'', street = ''1 Main St'',
             city = ''Lahore'', zip = ''54000'', isDefault = True\<rparr>,
            \<lparr>UserAddress.id = ''address_2'', title = ''Office'', street = ''2 Mall Rd'',
             city = ''Lahore'', zip = ''54000'', isDefault = False\<rparr>]\<rparr>,
      isLoading = False\<rparr>"

definition memberState :: UserState where
  "memberState =
     \<lparr>profile = Some
        \<lparr>UserProfile.id = ''p1'', name = ''Ann'', email = ''ann@x.org'', phone = [],
         avatar = None, addresses = []\<rparr>,
      isLoading = False\<rparr>"

definition addressTable :: "UserAddressRow list" where
  "addressTable =
     [\<lparr>UserAddressRow.id = ''a1'', user_profile_id = ''p1'', title = ''Home'',
       street = ''1 Main St'', city = ''Lahore'', zip_code = ''54000'', is_default = True,
       created_at = 1\<rparr>,
      \<lparr>UserAddressRow.id = ''a2'', user_profile_id = ''p1'', title = ''Office'',
       street = ''2 Mall Rd'', city = ''Lahore'', zip_code = ''54000'', is_default = False,
       created_at = 2\<rparr>,
      \<lparr>UserAddressRow.id = ''b1'', user_profile_id = ''p2'', title = ''Home'',
       street = ''3 Canal Rd'', city = ''Karachi'', zip_code = ''74000'', is_default = True,
       created_at = 3\<rparr>]"

section \<open>Arithmetic of numbers\<close>

lemma roundHalfEven_nearest: "\<bar>of_int (roundHalfEven y) - y\<bar> \<le> 1 / 2"
proof -
  have "of_int \<lfloor>y\<rfloor> \<le> y" and "y < of_int \<lfloor>y\<rfloor> + 1" by linarith+
  then show ?thesis
    by (auto simp: roundHalfEven_def Let_def abs_le_iff)
qed

lemma ilog2_bounds:
  assumes "x \<noteq> 0"
  shows "2 powi ilog2 x \<le> \<bar>x\<bar> \<and> \<bar>x\<bar> < 2 powi (ilog2 x + 1)"
proof (cases "1 \<le> \<bar>x\<bar>")
  case True
  define n where "n = \<lfloor>\<bar>x\<bar>\<rfloor>"
  from True have npos: "0 < n" by (simp add: n_def)
  from bitlen_bounds [OF npos]
  have lower: "2 ^ nat (bitlen n - 1) \<le> n" and upper: "n < 2 ^ nat (bitlen n)" by simp_all
  from npos have b1: "1 \<le> bitlen n"
    using bitlen_eq_zero_iff [of n] bitlen_nonneg [of n] by linarith
  have il: "ilog2 x = bitlen n - 1" using True by (simp add: ilog2_def n_def)
  from lower have "(of_int (2 ^ nat (bitlen n - 1)) :: rat) \<le> of_int n"
    by (simp only: of_int_le_iff)
  also have "\<dots> \<le> \<bar>x\<bar>" by (simp add: n_def)
  finally have low: "2 powi (bitlen n - 1) \<le> \<bar>x\<bar>"
    using b1 by (simp add: power_int_def)
  from upper have "n + 1 \<le> 2 ^ nat (bitlen n)" by simp
  then have "(of_int (n + 1) :: rat) \<le> of_int (2 ^ nat (bitlen n))"
    by (simp only: of_int_le_iff)
  moreover have "\<bar>x\<bar> < of_int (n + 1)" unfolding n_def by linarith
  ultimately have "\<bar>x\<bar> < of_int (2 ^ nat (bitlen n))" by linarith
  then have "\<bar>x\<bar> < 2 powi bitlen n"
    using b1 by (simp add: power_int_def)
  with low show ?thesis by (simp add: il)
next
  case False
  define y where "y = 1 / \<bar>x\<bar>"
  define c where "c = \<lceil>y\<rceil>"
  define k where "k = bitlen (c - 1)"
  from assms have xpos: "0 < \<bar>x\<bar>" by simp
  with False have y1: "1 < y" by (simp add: y_def)
  then have c2: "2 \<le> c" unfolding c_def by (simp add: le_ceiling_iff)
  then have cpos: "0 < c - 1" by simp
  from bitlen_bounds [OF cpos]
  have lower: "2 ^ nat (k - 1) \<le> c - 1" and upper: "c - 1 < 2 ^ nat k"
    by (simp_all add: k_def)
  from cpos have k1: "1 \<le> k" unfolding k_def
    using bitlen_eq_zero_iff [of "c - 1"] bitlen_nonneg [of "c - 1"] by linarith
  have il: "ilog2 x = - k" using False by (simp add: ilog2_def k_def c_def y_def)
  from upper have "c \<le> 2 ^ nat k" by simp
  then have "(of_int c :: rat) \<le> of_int (2 ^ nat k)" by (simp only: of_int_le_iff)
  moreover have "y \<le> of_int c" by (simp add: c_def)
  ultimately have "y \<le> of_int (2 ^ nat k)" by linarith
  then have yk: "y \<le> 2 ^ nat k" by simp
  from lower have "(of_int (2 ^ nat (k - 1)) :: rat) \<le> of_int (c - 1)"
    by (simp only: of_int_le_iff)
  moreover have "of_int (c - 1) < y" unfolding c_def by linarith
  ultimately have "of_int (2 ^ nat (k - 1)) < y" by linarith
  then have ky: "2 ^ nat (k - 1) < y" by simp
  have xy: "\<bar>x\<bar> = 1 / y" using xpos by (simp add: y_def)
  from y1 have ypos: "0 < y" by simp
  from yk ypos have "1 / (2 ^ nat k) \<le> 1 / y"
    by (simp add: frac_le)
  then have low: "2 powi (- k) \<le> \<bar>x\<bar>"
    using k1 by (simp add: xy power_int_def nat_minus_as_int field_simps)
  from ky ypos have "1 / y < 1 / (2 ^ nat (k - 1))"
    by (simp add: frac_less2)
  moreover have "(2::rat) powi (- k + 1) = 1 / (2 ^ nat (k - 1))"
  proof -
    have "- k + 1 = - int (nat (k - 1))" using k1 by simp
    then show ?thesis by (simp only: power_int_minus power_int_of_nat) (simp add: field_simps)
  qed
  ultimately have "\<bar>x\<bar> < 2 powi (- k + 1)" by (simp add: xy)
  with low show ?thesis by (simp add: il)
qed

lemma roundHalfEven_of_int: "roundHalfEven (of_int k) = k"
  by (simp add: roundHalfEven_def)

lemma roundHalfEven_ge: "of_int k \<le> y \<Longrightarrow> k \<le> roundHalfEven y"
  by (auto simp: roundHalfEven_def Let_def le_floor_iff) (smt (verit) le_floor_iff)+

lemma ilog2_int:
  assumes "n \<noteq> 0"
  shows "ilog2 (of_int n) = bitlen \<bar>n\<bar> - 1"
proof -
  from assms have "1 \<le> \<bar>n\<bar>" by simp
  then have "(of_int 1 :: rat) \<le> of_int \<bar>n\<bar>" by (simp only: of_int_le_iff)
  then have "(1::rat) \<le> \<bar>of_int n\<bar>" by simp
  moreover have "\<lfloor>\<bar>of_int n :: rat\<bar>\<rfloor> = \<bar>n\<bar>" by (simp flip: of_int_abs)
  ultimately show ?thesis by (simp add: ilog2_def)
qed

text \<open>A whole number below \<open>2 ^ 53\<close> is a binary64 value: rounding leaves it as it is.\<close>

lemma fl_int:
  assumes "\<bar>n\<bar> < 2 ^ 53"
  shows "fl (of_int n) = Num (of_int n)"
proof (cases "n = 0")
  case True
  then show ?thesis by (simp add: fl_def)
next
  case False
  define e where "e = bitlen \<bar>n\<bar> - 1"
  from False have pos: "0 < \<bar>n\<bar>" by simp
  from bitlen_bounds [OF pos] have lower: "2 ^ nat e \<le> \<bar>n\<bar>" by (simp add: e_def)
  from pos have e0: "0 \<le> e" unfolding e_def
    using bitlen_eq_zero_iff [of "\<bar>n\<bar>"] bitlen_nonneg [of "\<bar>n\<bar>"] by linarith
  from lower assms have "(2::int) ^ nat e < 2 ^ 53" by linarith
  then have "nat e < 53" by (rule power_less_imp_less_exp [rotated]) simp
  with e0 have e52: "e \<le> 52" by linarith
  define k where "k = nat (52 - e)"
  have q: "max (ilog2 (of_int n) - 52) (- 1074) = - int k"
    using e0 e52 by (simp add: ilog2_int [OF False] e_def [symmetric] k_def)
  have scaled: "(of_int n :: rat) / 2 powi (- int k) = of_int (n * 2 ^ k)"
    by (simp add: power_int_minus field_simps)
  have m: "roundHalfEven ((of_int n :: rat) / 2 powi (- int k)) = n * 2 ^ k"
    unfolding scaled by (rule roundHalfEven_of_int)
  have "bitlen \<bar>n * 2 ^ k\<bar> = bitlen \<bar>n\<bar> + int k"
    using bitlen_pow2 [OF pos, of k] by (simp add: abs_mult)
  then have len: "- int k + bitlen \<bar>n * 2 ^ k\<bar> = e + 1"
    by (simp add: e_def)
  have unscaled: "(of_int (n * 2 ^ k) :: rat) * 2 powi (- int k) = of_int n"
    by (simp add: power_int_minus field_simps)
  from False have nz: "(of_int n :: rat) \<noteq> 0" by simp
  from e52 have fits: "\<not> 1024 < - int k + bitlen \<bar>n * 2 ^ k\<bar>"
    unfolding len by linarith
  have "fl (of_int n) =
      (if 1024 < - int k + bitlen \<bar>n * 2 ^ k\<bar>
       then (if 0 < (of_int n :: rat) then Infinity else NegInfinity)
       else Num (of_int (n * 2 ^ k) * 2 powi (- int k)))"
    unfolding fl_def Let_def q m using nz by (simp only: if_False)
  also have "\<dots> = Num (of_int n)"
    using fits by (simp only: if_False unscaled)
  finally show ?thesis .
qed

lemma fl_numeral [simp]:
  "(numeral k :: int) < 2 ^ 53 \<Longrightarrow> fl (numeral k) = Num (numeral k)"
  using fl_int [of "numeral k"] by simp

lemma fl_zero [simp]: "fl 0 = Num 0"
  by (simp add: fl_def)

lemma fl_one [simp]: "fl 1 = Num 1"
  using fl_int [of 1] by simp

lemma fl_nat:
  assumes "n < 2 ^ 53"
  shows "fl (of_nat n) = Num (of_nat n)"
proof -
  from assms have "int n < int (2 ^ 53)" by (simp only: of_nat_less_iff)
  then have "\<bar>int n\<bar> < 2 ^ 53" by simp
  from fl_int [OF this] show ?thesis by simp
qed

text \<open>Rounding a value of at least one gives at least one.\<close>

lemma fl_ge_one:
  assumes "1 \<le> x"
  shows "Num 1 \<le> fl x"
proof -
  define e where "e = bitlen \<lfloor>x\<rfloor> - 1"
  define p :: int where "p = 52"
  from assms have fpos: "0 < \<lfloor>x\<rfloor>" by simp
  from bitlen_bounds [OF fpos] have lower: "2 ^ nat e \<le> \<lfloor>x\<rfloor>" by (simp add: e_def)
  from fpos have e0: "0 \<le> e" unfolding e_def
    using bitlen_eq_zero_iff [of "\<lfloor>x\<rfloor>"] bitlen_nonneg [of "\<lfloor>x\<rfloor>"] by linarith
  have il: "ilog2 x = e" using assms by (simp add: ilog2_def e_def)
  have q: "max (ilog2 x - 52) (- 1074) = e - p" using e0 by (simp add: il p_def)
  from lower have "(of_int (2 ^ nat e) :: rat) \<le> of_int \<lfloor>x\<rfloor>"
    by (simp only: of_int_le_iff)
  also have "\<dots> \<le> x" by simp
  finally have xe: "2 powi e \<le> x" using e0 by (simp add: power_int_def)
  have split: "(2::rat) powi e = 2 powi p * 2 powi (e - p)"
    using power_int_add [of "2::rat" p "e - p"] by simp
  have ppos: "(0::rat) < 2 powi (e - p)" by simp
  from xe have "(2::rat) powi p * 2 powi (e - p) \<le> x" by (simp only: split)
  with ppos have "(2::rat) powi p \<le> x / 2 powi (e - p)"
    by (simp add: pos_le_divide_eq)
  moreover have pow: "(2::rat) powi p = of_int (2 ^ nat p)"
    by (simp add: p_def power_int_def)
  ultimately have "(of_int (2 ^ nat p) :: rat) \<le> x / 2 powi (e - p)" by simp
  then have least: "2 ^ nat p \<le> roundHalfEven (x / 2 powi (e - p))"
    by (rule roundHalfEven_ge)
  define m where "m = roundHalfEven (x / 2 powi (e - p))"
  from least have "2 ^ nat p \<le> m" by (simp add: m_def)
  then have "(of_int (2 ^ nat p) :: rat) \<le> of_int m" by (simp only: of_int_le_iff)
  with pow have "(2::rat) powi p \<le> of_int m" by simp
  with ppos have "(2::rat) powi p * 2 powi (e - p) \<le> of_int m * 2 powi (e - p)"
    by (simp only: mult_right_mono less_imp_le)
  then have "(2::rat) powi e \<le> of_int m * 2 powi (e - p)" by (simp only: split)
  moreover have "(1::rat) \<le> 2 powi e" using e0 by (simp add: power_int_def)
  ultimately have "(1::rat) \<le> of_int m * 2 powi (e - p)" by linarith
  moreover from assms have "x \<noteq> 0" "0 < x" by simp_all
  ultimately show ?thesis
    by (simp add: fl_def Let_def q m_def [symmetric])
qed

lemma one_le_above_zero: "Num 1 \<le> q \<Longrightarrow> Num 0 < q"
  by (cases q) simp_all

lemma one_le_plus: "Num 1 \<le> a \<Longrightarrow> Num 1 \<le> b \<Longrightarrow> Num 1 \<le> a + b"
  by (cases a; cases b) (simp_all add: fl_ge_one)

text \<open>The literal and the taxes of the subtotals that occur in the examples.\<close>

lemma literal_0_15_value: "literal_0_15 = Num (5404319552844595 / 2 ^ 55)"
  by code_simp

lemma tax_0: "Math_round (Num 0 * literal_0_15) = Num 0"
  by code_simp

lemma tax_300: "Math_round (Num 300 * literal_0_15) = Num 45"
  by code_simp

lemma tax_500: "Math_round (Num 500 * literal_0_15) = Num 75"
  by code_simp

lemma tax_800: "Math_round (Num 800 * literal_0_15) = Num 120"
  by code_simp

lemma tax_1000: "Math_round (Num 1000 * literal_0_15) = Num 150"
  by code_simp

lemma tax_2000: "Math_round (Num 2000 * literal_0_15) = Num 300"
  by code_simp

lemmas tax_facts = tax_0 tax_300 tax_500 tax_800 tax_1000 tax_2000

text \<open>
  Two prices with cents: in binary64 the sum of 0.01 and 999.99 is 1000, which is not
  above the threshold.
\<close>

lemma cents_sum: "Num 0 + fl (1 / 100) + fl (99999 / 100) = Num 1000"
  by code_simp

text \<open>
  A product that rounds to a tie: the subtotal 56.666666666666664 times 0.15 is 8.5 in
  binary64, and \<open>Math.round\<close> gives 9.
\<close>

lemma tax_tie:
  "Math_round ((Num 0 + fl (56666666666666664 / 10 ^ 15)) * literal_0_15) = Num 9"
  by code_simp

section \<open>Derived totals\<close>

lemma foldl_map_totalPrice:
  "foldl (\<lambda>sum item. sum + totalPrice item) a its = foldl (+) a (map totalPrice its)"
  by (induction its arbitrary: a) simp_all

lemma foldl_whole_amounts:
  "a + sum_list amounts < 2 ^ 53 \<Longrightarrow>
   foldl (+) (Num (of_nat a)) (map (\<lambda>n. Num (of_nat n)) amounts)
     = Num (of_nat (a + sum_list amounts))"
proof (induction amounts arbitrary: a)
  case Nil
  then show ?case by simp
next
  case (Cons n amounts)
  from Cons.prems have "a + n < 2 ^ 53" by simp
  then have "Num (of_nat a) + Num (of_nat n) = Num (of_nat (a + n))"
    using fl_nat [of "a + n"] by simp
  moreover from Cons.prems have "(a + n) + sum_list amounts < 2 ^ 53"
    by (simp add: add.assoc)
  ultimately show ?case
    using Cons.IH [of "a + n"] by (simp add: add.assoc)
qed

text \<open>
  C1: the subtotal is the sum of the items' \<open>totalPrice\<close> fields, added from left to right
  starting from 0; the delivery fee is 0 above a subtotal of 1000 and 150 otherwise; the
  tax is the subtotal times 0.15, rounded by \<open>Math.round\<close>; the total is subtotal plus
  delivery fee plus tax. All operations are those of binary64 numbers. When the prices
  are whole numbers with a sum below \<open>2 ^ 53\<close>, the subtotal is exactly their sum. On the
  scenario cart the four values are 2000, 0, 300 and 2300; on the prices 0.01 and 999.99
  they are 1000, 150, 150 and 1300; on the price 56.666666666666664 the tax is 9.
\<close>

theorem calculateTotals_formula:
  "subtotal (calculateTotals its) = foldl (+) (Num 0) (map totalPrice its)
   \<and> deliveryFee (calculateTotals its)
       = (if subtotal (calculateTotals its) > Num 1000 then Num 0 else Num 150)
   \<and> tax (calculateTotals its) = Math_round (subtotal (calculateTotals its) * literal_0_15)
   \<and> literal_0_15 = fl (15 / 100)
   \<and> total (calculateTotals its)
       = subtotal (calculateTotals its) + deliveryFee (calculateTotals its)
         + tax (calculateTotals its)
   \<and> (map totalPrice its = map (\<lambda>n. Num (of_nat n)) amounts \<and> sum_list amounts < 2 ^ 53
        \<longrightarrow> subtotal (calculateTotals its) = Num (of_nat (sum_list amounts)))
   \<and> calculateTotals scenarioCart
       = \<lparr>subtotal = Num 2000, deliveryFee = Num 0, tax = Num 300, total = Num 2300\<rparr>
   \<and> calculateTotals
         [pricedItem ''a'' (Num 1) (fl (1 / 100)), pricedItem ''b'' (Num 1) (fl (99999 / 100))]
       = \<lparr>subtotal = Num 1000, deliveryFee = Num 150, tax = Num 150, total = Num 1300\<rparr>
   \<and> tax (calculateTotals [pricedItem ''c'' (Num 1) (fl (56666666666666664 / 10 ^ 15))])
       = Num 9"
proof -
  have sub: "subtotal (calculateTotals its) = foldl (+) (Num 0) (map totalPrice its)"
    by (simp add: calculateTotals_def Let_def foldl_map_totalPrice)
  have scenario: "calculateTotals scenarioCart
      = \<lparr>subtotal = Num 2000, deliveryFee = Num 0, tax = Num 300, total = Num 2300\<rparr>"
    by (simp add: calculateTotals_def Let_def scenarioCart_def scenarioItem_def tax_facts)
  have cents: "calculateTotals
         [pricedItem ''a'' (Num 1) (fl (1 / 100)), pricedItem ''b'' (Num 1) (fl (99999 / 100))]
       = \<lparr>subtotal = Num 1000, deliveryFee = Num 150, tax = Num 150, total = Num 1300\<rparr>"
    unfolding calculateTotals_def Let_def pricedItem_def
    by (simp only: foldl.simps CartItem.simps cents_sum tax_facts) simp
  have whole: "subtotal (calculateTotals its) = Num (of_nat (sum_list amounts))"
    if "map totalPrice its = map (\<lambda>n. Num (of_nat n)) amounts" "sum_list amounts < 2 ^ 53"
    using foldl_whole_amounts [of 0 amounts] that by (simp add: sub)
  have rest: "deliveryFee (calculateTotals its)
       = (if subtotal (calculateTotals its) > Num 1000 then Num 0 else Num 150)"
    "tax (calculateTotals its) = Math_round (subtotal (calculateTotals its) * literal_0_15)"
    "total (calculateTotals its)
       = subtotal (calculateTotals its) + deliveryFee (calculateTotals its)
         + tax (calculateTotals its)"
    by (simp_all add: calculateTotals_def Let_def)
  have lit: "literal_0_15 = fl (15 / 100)"
    by (simp only: literal_0_15_def)
  have tie: "tax (calculateTotals [pricedItem ''c'' (Num 1) (fl (56666666666666664 / 10 ^ 15))])
       = Num 9"
    unfolding calculateTotals_def Let_def pricedItem_def
    by (simp only: foldl.simps CartItem.simps Totals.simps tax_tie)
  from sub rest lit scenario cents tie whole show ?thesis
    by blast
qed

text \<open>C1 on the scenario cart, whose prices are the whole numbers 1000 and 1000.\<close>

theorem calculateTotals_formula_witness:
  "map totalPrice scenarioCart = map (\<lambda>n. Num (of_nat n)) [1000, 1000]
   \<and> sum_list [1000, 1000 :: nat] < 2 ^ 53
   \<and> subtotal (calculateTotals scenarioCart) = Num 2000"
proof -
  have prices: "map totalPrice scenarioCart = map (\<lambda>n. Num (of_nat n)) [1000, 1000]"
    by (simp add: scenarioCart_def scenarioItem_def)
  have bound: "sum_list [1000, 1000 :: nat] < 2 ^ 53" by simp
  from calculateTotals_formula [of scenarioCart "[1000, 1000]"] prices bound
  have "subtotal (calculateTotals scenarioCart) = Num (of_nat (sum_list [1000, 1000]))"
    by blast
  with prices bound show ?thesis by simp
qed

section \<open>Cart reducer\<close>

lemma findIndexFrom_range:
  "findIndexFrom P xs i = - 1 \<or> i \<le> findIndexFrom P xs i"
  by (induction xs arbitrary: i) (auto, smt (verit))

lemma findIndexFrom_found:
  "0 \<le> i \<Longrightarrow> (0 \<le> findIndexFrom P xs i) = (\<exists>x \<in> set xs. P x)"
  by (induction xs arbitrary: i) auto

lemma mapIndexFrom_untouched:
  "k < i \<Longrightarrow> mapIndexFrom (\<lambda>item index. if index = k then g item else item) xs i = xs"
  by (induction xs arbitrary: i) auto

lemma mapIndexFrom_first:
  "0 \<le> i \<Longrightarrow>
   mapIndexFrom (\<lambda>item index. if index = findIndexFrom P xs i then g item else item) xs i
     = updateFirst P g xs"
proof (induction xs arbitrary: i)
  case Nil
  then show ?case by simp
next
  case (Cons x xs)
  show ?case
  proof (cases "P x")
    case True
    then show ?thesis by (simp add: mapIndexFrom_untouched)
  next
    case False
    have "findIndexFrom P xs (i + 1) \<noteq> i"
      using findIndexFrom_range [of P xs "i + 1"] Cons.prems by auto
    with False Cons show ?thesis by simp
  qed
qed

lemma findIndex_found:
  "(0 \<le> findIndex (\<lambda>item. CartItem.id item = i) its) = (i \<in> CartItem.id ` set its)"
  unfolding findIndex_def by (subst findIndexFrom_found) (auto simp: image_iff)

lemma addItem_items:
  "items (cartReducer state (ADD_ITEM payload)) =
     (if CartItem.id payload \<in> CartItem.id ` set (items state)
      then updateFirst (\<lambda>item. CartItem.id item = CartItem.id payload)
             (\<lambda>item. item\<lparr>quantity := quantity item + quantity payload\<rparr>) (items state)
      else items state @ [payload])"
proof -
  have "mapIndex (\<lambda>item index.
            if index = findIndex (\<lambda>item. CartItem.id item = CartItem.id payload) (items state)
            then item\<lparr>quantity := quantity item + quantity payload\<rparr> else item) (items state)
        = updateFirst (\<lambda>item. CartItem.id item = CartItem.id payload)
             (\<lambda>item. item\<lparr>quantity := quantity item + quantity payload\<rparr>) (items state)"
    unfolding mapIndex_def findIndex_def by (rule mapIndexFrom_first) simp
  then show ?thesis
    by (simp add: Let_def spreadTotals_def findIndex_found)
qed

lemma removeItem_items:
  "items (cartReducer state (REMOVE_ITEM i))
   = filter (\<lambda>item. CartItem.id item \<noteq> i) (items state)"
  by (simp add: Let_def spreadTotals_def)

lemma updateQuantity_items:
  "items (cartReducer state (UPDATE_QUANTITY i q)) =
     filter (\<lambda>item. quantity item > Num 0)
       (map (\<lambda>item. if CartItem.id item = i then item\<lparr>quantity := q\<rparr> else item)
          (items state))"
  by (simp add: Let_def spreadTotals_def)

lemma storedTotals_spreadTotals:
  "storedTotals (spreadTotals state its t) = t"
  by (simp add: storedTotals_def spreadTotals_def)

lemma items_spreadTotals: "items (spreadTotals state its t) = its"
  by (simp add: spreadTotals_def)

lemma storedTotals_mutation:
  "cartMutation a \<Longrightarrow>
   storedTotals (cartReducer state a) = calculateTotals (items (cartReducer state a))"
  by (cases a) (simp_all add: Let_def storedTotals_spreadTotals items_spreadTotals)

lemma runCart_snoc: "runCart (actions @ [a]) = cartReducer (runCart actions) a"
  by (simp add: runCart_def)

lemma storedTotals_runCart:
  assumes "actions \<noteq> []" and "list_all cartMutation actions"
  shows "storedTotals (runCart actions) = calculateTotals (items (runCart actions))"
proof -
  from assms(1) obtain as a where split: "actions = as @ [a]"
    by (cases actions rule: rev_cases) auto
  with assms(2) have "cartMutation a" by simp
  then show ?thesis
    unfolding split runCart_snoc by (rule storedTotals_mutation)
qed

text \<open>
  Whatever the actions of a run, the stored totals of a cart that is not empty are the
  ones \<open>calculateTotals\<close> gives for its items.
\<close>

lemma storedTotals_step:
  assumes "items state \<noteq> [] \<Longrightarrow> storedTotals state = calculateTotals (items state)"
    and "items (cartReducer state a) \<noteq> []"
  shows "storedTotals (cartReducer state a) = calculateTotals (items (cartReducer state a))"
proof (cases a)
  case CLEAR_CART
  with assms(2) show ?thesis by (simp add: initialState_def)
next
  case (SET_LOADING b)
  with assms show ?thesis by (simp add: storedTotals_def)
qed (simp_all add: Let_def storedTotals_spreadTotals items_spreadTotals)

lemma storedTotals_any_run:
  "items (runCart actions) \<noteq> [] \<Longrightarrow>
   storedTotals (runCart actions) = calculateTotals (items (runCart actions))"
proof (induction actions rule: rev_induct)
  case Nil
  then show ?case by (simp add: runCart_def initialState_def)
next
  case (snoc a actions)
  from snoc.IH snoc.prems show ?case
    unfolding runCart_snoc by (rule storedTotals_step)
qed

lemma calculateTotals_cong:
  "map totalPrice its = map totalPrice its' \<Longrightarrow> calculateTotals its = calculateTotals its'"
  by (simp add: calculateTotals_def foldl_map_totalPrice)

lemma updateFirst_map:
  "(\<And>x. f (g x) = f x) \<Longrightarrow> map f (updateFirst P g xs) = map f xs"
  by (induction xs) simp_all

lemma positiveQuantities_updateFirst:
  "positiveQuantities xs \<Longrightarrow> Num 1 \<le> q \<Longrightarrow>
   positiveQuantities (updateFirst P (\<lambda>item. item\<lparr>quantity := quantity item + q\<rparr>) xs)"
  by (induction xs) (auto simp: positiveQuantities_def one_le_plus)

lemma positiveQuantities_step:
  assumes "cartMutationPositive a" and "positiveQuantities (items state)"
  shows "positiveQuantities (items (cartReducer state a))"
proof (cases a)
  case (ADD_ITEM payload)
  from assms have "Num 1 \<le> quantity payload"
    unfolding ADD_ITEM by simp
  with assms(2) show ?thesis
    unfolding ADD_ITEM addItem_items
    by (simp add: positiveQuantities_updateFirst) (simp add: positiveQuantities_def)
next
  case (REMOVE_ITEM i)
  from assms(2) show ?thesis
    unfolding REMOVE_ITEM removeItem_items
    by (simp add: positiveQuantities_def list_all_iff)
next
  case (UPDATE_QUANTITY i q)
  from assms have "Num 0 < q \<longrightarrow> Num 1 \<le> q"
    unfolding UPDATE_QUANTITY by simp
  with assms(2) show ?thesis
    unfolding UPDATE_QUANTITY updateQuantity_items positiveQuantities_def list_all_iff
    by auto
qed (use assms in simp_all)

lemma positiveQuantities_runCart:
  "list_all cartMutationPositive actions \<Longrightarrow> positiveQuantities (items (runCart actions))"
proof (induction actions rule: rev_induct)
  case Nil
  show ?case by (simp add: runCart_def initialState_def positiveQuantities_def)
next
  case (snoc a actions)
  then show ?case by (simp add: runCart_snoc positiveQuantities_step)
qed


lemma map_totalPrice_setQuantity:
  "map totalPrice
     (map (\<lambda>item. if CartItem.id item = i then item\<lparr>quantity := q\<rparr> else item) its)
   = map totalPrice its"
  by (induction its) simp_all

lemma updateQuantity_positive_items:
  assumes "quantitiesAboveZero its" and "Num 0 < q"
  shows "filter (\<lambda>item. quantity item > Num 0)
           (map (\<lambda>item. if CartItem.id item = i then item\<lparr>quantity := q\<rparr> else item) its)
         = map (\<lambda>item. if CartItem.id item = i then item\<lparr>quantity := q\<rparr> else item) its"
  using assms by (induction its) (auto simp: quantitiesAboveZero_def)




declare cartReducer.simps [simp del]

lemma runCart_exampleActions:
  "storedTotals (runCart exampleActions)
     = \<lparr>subtotal = Num 1000, deliveryFee = Num 150, tax = Num 150, total = Num 1300\<rparr>
   \<and> items (runCart exampleActions) = [pricedItem ''A'' (Num 3) (Num 1000)]"
  by (simp add: exampleActions_def runCart_def initialState_def scenarioItem_def
      pricedItem_def Let_def cartReducer.simps findIndex_def mapIndex_def spreadTotals_def
      storedTotals_def calculateTotals_def tax_facts)


lemma list_all_cartMutation:
  "list_all cartMutationPositive actions \<Longrightarrow> list_all cartMutation actions"
proof (induction actions)
  case Nil
  then show ?case by simp
next
  case (Cons a actions)
  then have "cartMutationPositive a" by simp
  then have "cartMutation a" by (cases a) simp_all
  with Cons show ?case by simp
qed

text \<open>
  C2, as stated, fails for the empty run: the initial state stores a total of 0, while
  \<open>calculateTotals\<close> on its (empty) item list gives a delivery fee of 150 and so a total
  of 150.
\<close>

theorem initial_totals_not_recomputed:
  "list_all cartMutation []
   \<and> total (runCart []) = Num 0
   \<and> subtotal (calculateTotals (items (runCart [])))
       + deliveryFee (calculateTotals (items (runCart [])))
       + tax (calculateTotals (items (runCart []))) = Num 150"
  by (simp add: runCart_def initialState_def calculateTotals_def Let_def tax_facts)

text \<open>
  C2 (amended): after every run of \<open>addItem\<close>, \<open>removeItem\<close> and \<open>updateQuantity\<close>
  from the initial state, the stored total is the sum of the stored subtotal, delivery fee
  and tax; after every such run that is not empty, the four stored totals are the ones
  \<open>calculateTotals\<close> gives for the resulting item list, so the stored total is the
  recomputed subtotal plus delivery fee plus tax.
\<close>

theorem stored_totals_recomputed:
  assumes "list_all cartMutation actions"
  shows "total (runCart actions)
       = subtotal (runCart actions) + deliveryFee (runCart actions) + tax (runCart actions)
     \<and> (actions \<noteq> [] \<longrightarrow>
          storedTotals (runCart actions) = calculateTotals (items (runCart actions))
          \<and> total (runCart actions)
            = subtotal (calculateTotals (items (runCart actions)))
              + deliveryFee (calculateTotals (items (runCart actions)))
              + tax (calculateTotals (items (runCart actions))))"
proof (cases "actions = []")
  case True
  then show ?thesis by (simp add: runCart_def initialState_def)
next
  case False
  let ?t = "calculateTotals (items (runCart actions))"
  have stored: "storedTotals (runCart actions) = ?t"
    using False assms by (rule storedTotals_runCart)
  have sum: "total ?t = subtotal ?t + deliveryFee ?t + tax ?t"
    by (simp add: calculateTotals_def Let_def)
  have fields: "total (runCart actions) = total (storedTotals (runCart actions))"
    "subtotal (runCart actions) = subtotal (storedTotals (runCart actions))"
    "deliveryFee (runCart actions) = deliveryFee (storedTotals (runCart actions))"
    "tax (runCart actions) = tax (storedTotals (runCart actions))"
    by (simp_all add: storedTotals_def)
  from sum show ?thesis
    unfolding fields stored by simp
qed

text \<open>
  The amended C2 on a run of four operations.
\<close>

theorem stored_totals_recomputed_witness:
  "list_all cartMutation exampleActions \<and> exampleActions \<noteq> []
   \<and> storedTotals (runCart exampleActions) = calculateTotals (items (runCart exampleActions))
   \<and> calculateTotals (items (runCart exampleActions))
       = \<lparr>subtotal = Num 1000, deliveryFee = Num 150, tax = Num 150, total = Num 1300\<rparr>
   \<and> total (runCart exampleActions) = Num 1000 + Num 150 + Num 150"
proof -
  have ne: "exampleActions \<noteq> []" and mut: "list_all cartMutation exampleActions"
    by (simp_all add: exampleActions_def)
  from stored_totals_recomputed [OF mut] ne
  have stored: "storedTotals (runCart exampleActions)
      = calculateTotals (items (runCart exampleActions))"
    by blast
  have vals: "storedTotals (runCart exampleActions)
      = \<lparr>subtotal = Num 1000, deliveryFee = Num 150, tax = Num 150, total = Num 1300\<rparr>"
    by (simp add: runCart_exampleActions)
  from stored [symmetric] vals
  have calc: "calculateTotals (items (runCart exampleActions))
      = \<lparr>subtotal = Num 1000, deliveryFee = Num 150, tax = Num 150, total = Num 1300\<rparr>"
    by (rule trans)
  from vals have "total (runCart exampleActions) = Num 1300"
    by (simp add: storedTotals_def)
  then have "total (runCart exampleActions) = Num 1000 + Num 150 + Num 150"
    by simp
  with ne mut stored calc show ?thesis by blast
qed

text \<open>
  C6, as stated, fails twice: \<open>ADD_ITEM\<close> appends its payload as it is, so adding an item
  of quantity 0 to the empty cart leaves an item of quantity 0 in the cart; and
  \<open>UPDATE_QUANTITY\<close> keeps every quantity above zero, so setting a quantity to 0.5
  leaves an item of quantity 0.5, which is below one.
\<close>

theorem zero_quantity_added:
  "list_all cartMutation [ADD_ITEM (scenarioItem ''A'' (Num 0) (Num 500))]
   \<and> map quantity (items (runCart [ADD_ITEM (scenarioItem ''A'' (Num 0) (Num 500))])) = [Num 0]
   \<and> \<not> Num 1 \<le> Num 0
   \<and> list_all cartMutation halfQuantityActions
   \<and> map quantity (items (runCart halfQuantityActions)) = [Num (1 / 2)]
   \<and> \<not> Num 1 \<le> Num (1 / 2)"
  by (simp add: runCart_def initialState_def scenarioItem_def Let_def findIndex_def
      cartReducer.simps spreadTotals_def halfQuantityActions_def)

text \<open>
  C6 (amended): when every added item has a quantity of at least one and every update
  sets a quantity that is at least one or is not above zero (any whole number), every item
  of every cart reached from the initial state by \<open>addItem\<close>, \<open>removeItem\<close> and
  \<open>updateQuantity\<close> has a quantity of at least one; and after an \<open>updateQuantity\<close>, in
  any state and with any payload, every item left has a quantity above zero.
\<close>

theorem quantities_at_least_one:
  assumes "list_all cartMutationPositive actions"
  shows "positiveQuantities (items (runCart actions))
     \<and> quantitiesAboveZero (items (cartReducer state (UPDATE_QUANTITY i q)))"
  using assms
  by (simp add: positiveQuantities_runCart updateQuantity_items quantitiesAboveZero_def
      list_all_iff)

text \<open>
  The amended C6 on a run of four operations.
\<close>

theorem quantities_at_least_one_witness:
  "list_all cartMutationPositive exampleActions
   \<and> positiveQuantities (items (runCart exampleActions))
   \<and> map quantity (items (runCart exampleActions)) = [Num 3]"
proof -
  have pos: "list_all cartMutationPositive exampleActions"
    by (simp add: exampleActions_def scenarioItem_def)
  from quantities_at_least_one [OF pos] pos show ?thesis
    by (simp add: runCart_exampleActions pricedItem_def)
qed




lemma runCart_zeroQuantityActions:
  "storedTotals (runCart zeroQuantityActions)
     = \<lparr>subtotal = Num 800, deliveryFee = Num 150, tax = Num 120, total = Num 1070\<rparr>
   \<and> items (runCart zeroQuantityActions)
     = [pricedItem ''A'' (Num 0) (Num 500), pricedItem ''B'' (Num 1) (Num 300)]"
  by (simp add: zeroQuantityActions_def runCart_def initialState_def pricedItem_def Let_def
      cartReducer.simps findIndex_def mapIndex_def spreadTotals_def storedTotals_def
      calculateTotals_def tax_facts)

lemma runCart_loadedActions:
  "storedTotals (runCart loadedActions)
     = \<lparr>subtotal = Num 2000, deliveryFee = Num 0, tax = Num 300, total = Num 2300\<rparr>
   \<and> items (runCart loadedActions)
     = [pricedItem ''A'' (Num 2) (Num 1000), pricedItem ''B'' (Num 1) (Num 1000)]"
  by (simp add: loadedActions_def runCart_def initialState_def scenarioCart_def
      scenarioItem_def pricedItem_def Let_def cartReducer.simps spreadTotals_def
      storedTotals_def calculateTotals_def tax_facts)

text \<open>
  C10, as stated, fails in a cart that holds an item of quantity 0: after adding A with
  quantity 0 and price 500 and B with quantity 1 and price 300, the id B is present and
  \<open>updateQuantity(B, 2)\<close> prunes A, so the stored totals change from 800, 150, 120 and
  1070 to 300, 150, 45 and 495.
\<close>

theorem totals_change_when_pruned:
  "''B'' \<in> CartItem.id ` set (items (runCart zeroQuantityActions))
   \<and> Num 1 \<le> Num 2
   \<and> storedTotals (runCart zeroQuantityActions)
       = \<lparr>subtotal = Num 800, deliveryFee = Num 150, tax = Num 120, total = Num 1070\<rparr>
   \<and> storedTotals (cartReducer (runCart zeroQuantityActions) (UPDATE_QUANTITY ''B'' (Num 2)))
       = \<lparr>subtotal = Num 300, deliveryFee = Num 150, tax = Num 45, total = Num 495\<rparr>"
proof -
  have "cartReducer (runCart zeroQuantityActions) (UPDATE_QUANTITY ''B'' (Num 2))
      = spreadTotals (runCart zeroQuantityActions) [pricedItem ''B'' (Num 2) (Num 300)]
          (calculateTotals [pricedItem ''B'' (Num 2) (Num 300)])"
    by (simp add: cartReducer.simps Let_def runCart_zeroQuantityActions pricedItem_def)
  then have "storedTotals (cartReducer (runCart zeroQuantityActions)
        (UPDATE_QUANTITY ''B'' (Num 2)))
      = calculateTotals [pricedItem ''B'' (Num 2) (Num 300)]"
    by (simp only: storedTotals_spreadTotals)
  also have "\<dots>
      = \<lparr>subtotal = Num 300, deliveryFee = Num 150, tax = Num 45, total = Num 495\<rparr>"
    by (simp add: calculateTotals_def Let_def pricedItem_def tax_facts)
  finally show ?thesis
    by (simp add: runCart_zeroQuantityActions pricedItem_def)
qed

text \<open>
  C10 (amended): the totals do not read the quantity fields. Changing the quantities of a
  list in any way leaves \<open>calculateTotals\<close> unchanged. In every cart reached from the
  initial state, by any actions, whose items all have a quantity above zero, and for every
  id that is present: \<open>updateQuantity(i, q)\<close> with \<open>q \<ge> 1\<close> leaves the four stored totals
  unchanged, and so does \<open>addItem\<close> of an item with the id \<open>i\<close>, which adds the payload's
  quantity to the quantity of the first item with that id.
\<close>

theorem totals_ignore_quantity:
  assumes "quantitiesAboveZero (items (runCart actions))"
    and "i \<in> CartItem.id ` set (items (runCart actions))"
  shows "calculateTotals (map (\<lambda>item. item\<lparr>quantity := f item\<rparr>) its) = calculateTotals its
     \<and> (Num 1 \<le> q \<longrightarrow>
          storedTotals (cartReducer (runCart actions) (UPDATE_QUANTITY i q))
            = storedTotals (runCart actions))
     \<and> (CartItem.id payload = i \<longrightarrow>
          storedTotals (cartReducer (runCart actions) (ADD_ITEM payload))
            = storedTotals (runCart actions)
          \<and> items (cartReducer (runCart actions) (ADD_ITEM payload))
            = updateFirst (\<lambda>item. CartItem.id item = i)
                (\<lambda>item. item\<lparr>quantity := quantity item + quantity payload\<rparr>)
                (items (runCart actions)))"
proof -
  let ?s = "runCart actions"
  from assms(2) have "items ?s \<noteq> []" by auto
  then have stored: "storedTotals ?s = calculateTotals (items ?s)"
    by (rule storedTotals_any_run)
  have free: "calculateTotals (map (\<lambda>item. item\<lparr>quantity := f item\<rparr>) its)
      = calculateTotals its"
    by (rule calculateTotals_cong) (simp add: comp_def)
  have upd: "storedTotals (cartReducer ?s (UPDATE_QUANTITY i q)) = storedTotals ?s"
    if "Num 1 \<le> q"
  proof -
    from that have above: "Num 0 < q" by (rule one_le_above_zero)
    have "storedTotals (cartReducer ?s (UPDATE_QUANTITY i q))
        = calculateTotals (items (cartReducer ?s (UPDATE_QUANTITY i q)))"
      by (rule storedTotals_mutation) simp
    also have "\<dots> = calculateTotals (items ?s)"
      unfolding updateQuantity_items updateQuantity_positive_items [OF assms(1) above]
      by (rule calculateTotals_cong) (simp only: map_totalPrice_setQuantity)
    finally show ?thesis by (simp only: stored)
  qed
  have add: "storedTotals (cartReducer ?s (ADD_ITEM payload)) = storedTotals ?s
      \<and> items (cartReducer ?s (ADD_ITEM payload))
        = updateFirst (\<lambda>item. CartItem.id item = i)
            (\<lambda>item. item\<lparr>quantity := quantity item + quantity payload\<rparr>) (items ?s)"
    if "CartItem.id payload = i"
  proof -
    have its: "items (cartReducer ?s (ADD_ITEM payload))
        = updateFirst (\<lambda>item. CartItem.id item = i)
            (\<lambda>item. item\<lparr>quantity := quantity item + quantity payload\<rparr>) (items ?s)"
      using assms(2) that by (simp add: addItem_items)
    have "storedTotals (cartReducer ?s (ADD_ITEM payload))
        = calculateTotals (items (cartReducer ?s (ADD_ITEM payload)))"
      by (rule storedTotals_mutation) simp
    also have "\<dots> = calculateTotals (items ?s)"
      unfolding its by (rule calculateTotals_cong) (simp add: updateFirst_map)
    finally have "storedTotals (cartReducer ?s (ADD_ITEM payload)) = storedTotals ?s"
      by (simp only: stored)
    with its show ?thesis by simp
  qed
  from free upd add show ?thesis by blast
qed

text \<open>
  The amended C10 on a cart loaded with the items A and B: setting the quantity of A to 7,
  or adding 4 more of it, keeps the totals at 2000, 0, 300 and 2300.
\<close>

theorem totals_ignore_quantity_witness:
  "quantitiesAboveZero (items (runCart loadedActions))
   \<and> ''A'' \<in> CartItem.id ` set (items (runCart loadedActions))
   \<and> Num 1 \<le> Num 7 \<and> CartItem.id (pricedItem ''A'' (Num 4) (Num 2000)) = ''A''
   \<and> storedTotals (cartReducer (runCart loadedActions) (UPDATE_QUANTITY ''A'' (Num 7)))
       = \<lparr>subtotal = Num 2000, deliveryFee = Num 0, tax = Num 300, total = Num 2300\<rparr>
   \<and> storedTotals (cartReducer (runCart loadedActions)
         (ADD_ITEM (pricedItem ''A'' (Num 4) (Num 2000))))
       = \<lparr>subtotal = Num 2000, deliveryFee = Num 0, tax = Num 300, total = Num 2300\<rparr>
   \<and> map quantity (items (cartReducer (runCart loadedActions)
         (ADD_ITEM (pricedItem ''A'' (Num 4) (Num 2000))))) = [Num 6, Num 1]"
proof -
  have above: "quantitiesAboveZero (items (runCart loadedActions))"
    and present: "''A'' \<in> CartItem.id ` set (items (runCart loadedActions))"
    and ident: "CartItem.id (pricedItem ''A'' (Num 4) (Num 2000)) = ''A''"
    and seven: "Num 1 \<le> Num 7"
    by (simp_all add: runCart_loadedActions quantitiesAboveZero_def pricedItem_def)
  from totals_ignore_quantity [OF above present, of _ _ "Num 7"
      "pricedItem ''A'' (Num 4) (Num 2000)"] ident seven
  have upd: "storedTotals (cartReducer (runCart loadedActions) (UPDATE_QUANTITY ''A'' (Num 7)))
          = storedTotals (runCart loadedActions)"
    and add: "storedTotals (cartReducer (runCart loadedActions)
            (ADD_ITEM (pricedItem ''A'' (Num 4) (Num 2000))))
          = storedTotals (runCart loadedActions)"
    and its: "items (cartReducer (runCart loadedActions)
            (ADD_ITEM (pricedItem ''A'' (Num 4) (Num 2000))))
          = updateFirst (\<lambda>item. CartItem.id item = ''A'')
              (\<lambda>item. item\<lparr>quantity :=
                 quantity item + quantity (pricedItem ''A'' (Num 4) (Num 2000))\<rparr>)
              (items (runCart loadedActions))"
    by blast+
  have "map quantity (items (cartReducer (runCart loadedActions)
         (ADD_ITEM (pricedItem ''A'' (Num 4) (Num 2000))))) = [Num 6, Num 1]"
    unfolding its by (simp add: runCart_loadedActions pricedItem_def)
  with above present ident seven upd add show ?thesis
    by (simp add: runCart_loadedActions)
qed

section \<open>Merging the local and the remote cart\<close>

lemma merge_loop:
  "foldl (\<lambda>mergedCart serverItem.
            if CartItem.id serverItem \<notin> localIds then mergedCart @ [serverItem] else mergedCart)
     acc serverCart
   = acc @ filter (\<lambda>serverItem. CartItem.id serverItem \<notin> localIds) serverCart"
  by (induction serverCart arbitrary: acc) simp_all

lemma getCart_syncCart:
  assumes "length (filter (\<lambda>row. CartSession.user_id row = userId) tbl) \<le> 1"
  shows "getCart userId (syncCart userId cartItems totalAmount tbl) = cartItems"
proof (cases "filter (\<lambda>row. CartSession.user_id row = userId) tbl")
  case Nil
  then show ?thesis
    by (simp add: getCart_def syncCart_def single_def)
next
  case (Cons row rest)
  with assms have rest: "rest = []" by simp
  have "filter (\<lambda>row. CartSession.user_id row = userId)
          (map (\<lambda>row. if CartSession.user_id row = userId
                     then row\<lparr>cart_items := cartItems, total_amount := totalAmount\<rparr>
                     else row) tbl)
        = map (\<lambda>row. row\<lparr>cart_items := cartItems, total_amount := totalAmount\<rparr>)
            (filter (\<lambda>row. CartSession.user_id row = userId) tbl)"
    by (induction tbl) simp_all
  with Cons rest show ?thesis
    by (simp add: getCart_def syncCart_def single_def)
qed

text \<open>
  C3: \<open>mergeAndSyncCart\<close> returns the local items in order, followed by the remote items
  whose id no local item has, and, with at most one session row for the user, the remote
  cart read back afterwards is that merged cart. For a local cart with X (quantity 2) and a
  remote cart with X (quantity 5) and Y, the merged cart is the local X and Y.
\<close>

theorem mergeAndSyncCart_local_wins:
  assumes "length (filter (\<lambda>row. CartSession.user_id row = userId) user_cart_sessions) \<le> 1"
  shows "fst (mergeAndSyncCart userId localCart localTotal user_cart_sessions)
       = localCart
         @ filter (\<lambda>serverItem. CartItem.id serverItem \<notin> CartItem.id ` set localCart)
             (getCart userId user_cart_sessions)
     \<and> getCart userId (snd (mergeAndSyncCart userId localCart localTotal user_cart_sessions))
       = fst (mergeAndSyncCart userId localCart localTotal user_cart_sessions)
     \<and> fst (mergeAndSyncCart ''u1'' [localX] (Num 1150) remoteXY) = [localX, remoteY]
     \<and> map quantity (fst (mergeAndSyncCart ''u1'' [localX] (Num 1150) remoteXY))
       = [Num 2, Num 1]"
proof -
  have scenario: "fst (mergeAndSyncCart ''u1'' [localX] (Num 1150) remoteXY) = [localX, remoteY]"
    by (simp add: mergeAndSyncCart_def Let_def getCart_def remoteXY_def single_def localX_def
        remoteX_def remoteY_def scenarioItem_def)
  have "map quantity [localX, remoteY] = [Num 2, Num 1]"
    by (simp add: localX_def remoteY_def scenarioItem_def)
  with scenario assms show ?thesis
    by (simp add: mergeAndSyncCart_def Let_def merge_loop getCart_syncCart)
qed

text \<open>
  C3 on the scenario's remote table, which holds one session row for the user.
\<close>

theorem mergeAndSyncCart_local_wins_witness:
  "length (filter (\<lambda>row. CartSession.user_id row = ''u1'') remoteXY) \<le> 1
   \<and> getCart ''u1'' remoteXY = [remoteX, remoteY]
   \<and> getCart ''u1'' (snd (mergeAndSyncCart ''u1'' [localX] (Num 1150) remoteXY))
       = [localX, remoteY]"
proof -
  have one: "length (filter (\<lambda>row. CartSession.user_id row = ''u1'') remoteXY) \<le> 1"
    by (simp add: remoteXY_def)
  have "getCart ''u1'' remoteXY = [remoteX, remoteY]"
    by (simp add: getCart_def remoteXY_def single_def)
  moreover have "getCart ''u1'' (snd (mergeAndSyncCart ''u1'' [localX] (Num 1150) remoteXY))
      = [localX, remoteY]"
    using mergeAndSyncCart_local_wins [OF one, of "[localX]" "Num 1150"] by metis
  ultimately show ?thesis using one by blast
qed

text \<open>
  C4: the amount \<open>mergeAndSyncCart\<close> writes is the sum of the items' prices, not the total
  of \<open>calculateTotals\<close>. For a local cart with one item of price 500 and no remote row, the
  row written holds that item and the amount 500, while \<open>calculateTotals\<close> gives the total
  725 for the item; for the same item list, \<open>updateQuantity\<close> and \<open>removeItem\<close> write
  725.
\<close>

theorem mergeAndSyncCart_total_written:
  "map total_amount
     (snd (mergeAndSyncCart ''u1'' [scenarioItem ''P'' (Num 1) (Num 500)] (Num 725) []))
     = [Num 500]
   \<and> map cart_items
       (snd (mergeAndSyncCart ''u1'' [scenarioItem ''P'' (Num 1) (Num 500)] (Num 725) []))
       = [[scenarioItem ''P'' (Num 1) (Num 500)]]
   \<and> total (calculateTotals [scenarioItem ''P'' (Num 1) (Num 500)]) = Num 725
   \<and> map total_amount
         (snd (updateQuantity (Some ''u1'') ''P'' (Num 1)
            (runCart [ADD_ITEM (scenarioItem ''P'' (Num 1) (Num 500))], []))) = [Num 725]
   \<and> map total_amount
         (snd (removeItem (Some ''u1'') ''Q''
            (runCart [ADD_ITEM (scenarioItem ''P'' (Num 1) (Num 500)),
                      ADD_ITEM (scenarioItem ''Q'' (Num 1) (Num 300))],
             []))) = [Num 725]"
  by (simp add: mergeAndSyncCart_def updateQuantity_def removeItem_def Let_def getCart_def
      syncCart_def single_def scenarioItem_def calculateTotals_def tax_facts runCart_def
      initialState_def cartReducer.simps findIndex_def spreadTotals_def)

section \<open>Orders\<close>

lemma partition_step:
  assumes "activeOrders state = filter isActive (orders state)"
    and "orderHistory state = filter isHistory (orders state)"
  shows "activeOrders (orderReducer state a) = filter isActive (orders (orderReducer state a))
     \<and> orderHistory (orderReducer state a) = filter isHistory (orders (orderReducer state a))"
  using assms by (cases a) (simp_all add: Let_def)

lemma partition_runOrders:
  "activeOrders (runOrders actions) = filter isActive (orders (runOrders actions))
   \<and> orderHistory (runOrders actions) = filter isHistory (orders (runOrders actions))"
proof (induction actions rule: rev_induct)
  case Nil
  show ?case by (simp add: runOrders_def initialOrderState_def)
next
  case (snoc a actions)
  have "runOrders (actions @ [a]) = orderReducer (runOrders actions) a"
    by (simp add: runOrders_def)
  with snoc show ?case by (simp only: partition_step)
qed

text \<open>
  C9: in every state reached from the initial order state, the active list is the order
  list filtered by the five open statuses and the history list is the order list filtered
  by the two final statuses. \<open>SET_ORDERS\<close>, \<open>ADD_ORDER\<close> and \<open>UPDATE_ORDER\<close> compute
  both lists from the new order list, whatever the state before; loading the empty list
  gives an empty active list, an empty history list and no error.
\<close>

theorem orders_partitioned:
  "activeOrders (runOrders actions) = filter isActive (orders (runOrders actions))
   \<and> orderHistory (runOrders actions) = filter isHistory (orders (runOrders actions))
   \<and> orders (orderReducer state (SET_ORDERS payload)) = payload
   \<and> set (activeOrders (orderReducer state (SET_ORDERS payload)))
       = {order. order \<in> set payload \<and> order_status order
            \<in> {''pending'', ''confirmed'', ''preparing'', ''ready'', ''out_for_delivery''}}
   \<and> set (orderHistory (orderReducer state (SET_ORDERS payload)))
       = {order. order \<in> set payload \<and> order_status order \<in> {''delivered'', ''cancelled''}}
   \<and> activeOrders (orderReducer state (SET_ORDERS payload)) = filter isActive payload
   \<and> orderHistory (orderReducer state (SET_ORDERS payload)) = filter isHistory payload
   \<and> orders (orderReducer state (ADD_ORDER new)) = new # orders state
   \<and> activeOrders (orderReducer state (ADD_ORDER new)) = filter isActive (new # orders state)
   \<and> orderHistory (orderReducer state (ADD_ORDER new)) = filter isHistory (new # orders state)
   \<and> activeOrders (orderReducer state (UPDATE_ORDER new))
       = filter isActive (orders (orderReducer state (UPDATE_ORDER new)))
   \<and> orderHistory (orderReducer state (UPDATE_ORDER new))
       = filter isHistory (orders (orderReducer state (UPDATE_ORDER new)))
   \<and> activeOrders (orderReducer state (SET_ORDERS [])) = []
   \<and> orderHistory (orderReducer state (SET_ORDERS [])) = []
   \<and> error (orderReducer state (SET_ORDERS [])) = None"
proof -
  have "set (filter isActive payload)
      = {order. order \<in> set payload \<and> order_status order
            \<in> {''pending'', ''confirmed'', ''preparing'', ''ready'', ''out_for_delivery''}}"
    by (auto simp: isActive_def)
  moreover have "set (filter isHistory payload)
      = {order. order \<in> set payload \<and> order_status order \<in> {''delivered'', ''cancelled''}}"
    by (auto simp: isHistory_def)
  ultimately show ?thesis
    using partition_runOrders [of actions] by (simp add: Let_def)
qed

section \<open>Profile resolution\<close>

lemma single_find:
  "length (filter P rows) \<le> 1 \<Longrightarrow> single (filter P rows) = find P rows"
  by (induction rows) (auto simp: single_def find_None_iff filter_empty_conv
      split: list.splits if_splits)

lemma filter_key_distinct:
  "distinct (map f xs) \<Longrightarrow> x \<in> set xs \<Longrightarrow> filter (\<lambda>y. f y = f x) xs = [x]"
proof (induction xs)
  case Nil
  then show ?case by simp
next
  case (Cons a xs)
  show ?case
  proof (cases "a = x")
    case True
    with Cons.prems have "\<forall>y \<in> set xs. f y \<noteq> f x" by (auto simp: image_iff)
    with True show ?thesis by (simp add: filter_empty_conv)
  next
    case False
    with Cons.prems have "x \<in> set xs" and "f a \<noteq> f x" by (auto simp: image_iff)
    with Cons show ?thesis by simp
  qed
qed

lemma adopt_single:
  assumes "distinct (map UserProfileRow.id tbl)" and "byEmail \<in> set tbl"
  shows "single (filter (\<lambda>row. UserProfileRow.id row = UserProfileRow.id byEmail)
           (map (\<lambda>row. if UserProfileRow.id row = UserProfileRow.id byEmail
                      then row\<lparr>user_id := userId\<rparr> else row) tbl))
         = Some (byEmail\<lparr>user_id := userId\<rparr>)"
proof -
  have "filter (\<lambda>row. UserProfileRow.id row = UserProfileRow.id byEmail)
           (map (\<lambda>row. if UserProfileRow.id row = UserProfileRow.id byEmail
                      then row\<lparr>user_id := userId\<rparr> else row) tbl)
        = map (\<lambda>row. row\<lparr>user_id := userId\<rparr>)
            (filter (\<lambda>row. UserProfileRow.id row = UserProfileRow.id byEmail) tbl)"
    by (induction tbl) simp_all
  also have "\<dots> = [byEmail\<lparr>user_id := userId\<rparr>]"
    using assms by (simp add: filter_key_distinct)
  finally show ?thesis by (simp add: single_def)
qed

lemma getOrCreateProfile_find:
  assumes "distinct (map UserProfileRow.id tbl)"
    and "length (filter (\<lambda>row. UserProfileRow.user_id row = userId) tbl) \<le> 1"
    and "length (filter (\<lambda>row. UserProfileRow.email row = address) tbl) \<le> 1"
  shows "getOrCreateProfile accepts generatedId userId address tbl =
     (case find (\<lambda>row. UserProfileRow.user_id row = userId) tbl of
        Some existing \<Rightarrow> (Some existing, tbl)
      | None \<Rightarrow>
          (case find (\<lambda>row. UserProfileRow.email row = address) tbl of
             Some byEmail \<Rightarrow>
               (Some (byEmail\<lparr>user_id := userId\<rparr>),
                map (\<lambda>row. if UserProfileRow.id row = UserProfileRow.id byEmail
                           then row\<lparr>user_id := userId\<rparr> else row) tbl)
           | None \<Rightarrow>
               (if accepts tbl
                     \<lparr>UserProfileRow.id = generatedId tbl, user_id = userId,
                      name = Some (emailLocalPart address), email = address,
                      phone = None, avatar_url = None\<rparr>
                then (Some \<lparr>UserProfileRow.id = generatedId tbl, user_id = userId,
                            name = Some (emailLocalPart address), email = address,
                            phone = None, avatar_url = None\<rparr>,
                      tbl @ [\<lparr>UserProfileRow.id = generatedId tbl, user_id = userId,
                              name = Some (emailLocalPart address), email = address,
                              phone = None, avatar_url = None\<rparr>])
                else (None, tbl))))"
proof (cases "find (\<lambda>row. UserProfileRow.user_id row = userId) tbl")
  case (Some existing)
  with assms(2) show ?thesis
    by (simp add: getOrCreateProfile_def single_find)
next
  case None
  note noUser = this
  show ?thesis
  proof (cases "find (\<lambda>row. UserProfileRow.email row = address) tbl")
    case None
    with noUser assms(2,3) show ?thesis
      by (simp add: getOrCreateProfile_def single_find Let_def)
  next
    case (Some byEmail)
    then have "byEmail \<in> set tbl"
      by (auto simp: find_Some_iff)
    with assms(1) have "single (filter (\<lambda>row. UserProfileRow.id row = UserProfileRow.id byEmail)
           (map (\<lambda>row. if UserProfileRow.id row = UserProfileRow.id byEmail
                      then row\<lparr>user_id := userId\<rparr> else row) tbl))
         = Some (byEmail\<lparr>user_id := userId\<rparr>)"
      by (rule adopt_single)
    with Some noUser assms(2,3) show ?thesis
      by (simp add: getOrCreateProfile_def single_find Let_def)
  qed
qed

lemma single_None_le1: "length rows \<le> 1 \<Longrightarrow> single rows = None \<Longrightarrow> rows = []"
  by (cases rows) (auto simp: single_def split: list.splits)

lemma adopt_filter:
  "(\<And>row. row \<in> set tbl \<Longrightarrow> UserProfileRow.user_id row \<noteq> userId) \<Longrightarrow>
   filter (\<lambda>row. UserProfileRow.user_id row = userId)
     (map (\<lambda>row. if UserProfileRow.id row = k then row\<lparr>user_id := userId\<rparr> else row) tbl)
   = filter (\<lambda>row. UserProfileRow.id row = k)
       (map (\<lambda>row. if UserProfileRow.id row = k then row\<lparr>user_id := userId\<rparr> else row) tbl)"
  by (induction tbl) auto

lemma getOrCreateProfile_again:
  assumes one: "length (filter (\<lambda>row. UserProfileRow.user_id row = userId) tbl) \<le> 1"
    and first: "getOrCreateProfile accepts generatedId userId address tbl = (Some prof, tbl')"
  shows "getOrCreateProfile accepts' generatedId' userId address' tbl' = (Some prof, tbl')"
proof -
  have found: "single (filter (\<lambda>row. UserProfileRow.user_id row = userId) tbl') = Some prof"
  proof (cases "single (filter (\<lambda>row. UserProfileRow.user_id row = userId) tbl)")
    case (Some existing)
    with first show ?thesis by (simp add: getOrCreateProfile_def)
  next
    case None
    with one have none: "filter (\<lambda>row. UserProfileRow.user_id row = userId) tbl = []"
      by (rule single_None_le1)
    then have others: "\<And>row. row \<in> set tbl \<Longrightarrow> UserProfileRow.user_id row \<noteq> userId"
      by (auto simp: filter_empty_conv)
    show ?thesis
    proof (cases "single (filter (\<lambda>row. UserProfileRow.email row = address) tbl)")
      case noEmail: None
      from first None noEmail
      have "tbl' = tbl @ [prof]" and "UserProfileRow.user_id prof = userId"
        by (auto simp: getOrCreateProfile_def Let_def split: if_splits)
      with none show ?thesis by (simp add: single_def)
    next
      case (Some byEmail)
      let ?upd = "map (\<lambda>row. if UserProfileRow.id row = UserProfileRow.id byEmail
                              then row\<lparr>user_id := userId\<rparr> else row) tbl"
      from first None Some
      have tbl': "tbl' = ?upd"
        and sel: "single (filter (\<lambda>row. UserProfileRow.id row = UserProfileRow.id byEmail) ?upd)
                  = Some prof"
        by (auto simp: getOrCreateProfile_def Let_def split: option.splits)
      have "filter (\<lambda>row. UserProfileRow.user_id row = userId) ?upd
          = filter (\<lambda>row. UserProfileRow.id row = UserProfileRow.id byEmail) ?upd"
        using others by (rule adopt_filter)
      with sel tbl' show ?thesis by simp
    qed
  qed
  then show ?thesis by (simp add: getOrCreateProfile_def)
qed

lemma emailLocalPart_before_at:
  "CHR ''@'' \<notin> set localPart \<Longrightarrow> emailLocalPart (localPart @ CHR ''@'' # domain) = localPart"
  by (induction localPart) (auto simp: emailLocalPart_def)

text \<open>
  C7: in a table with distinct profile ids, at most one row for the identity and at most
  one row for the email, \<open>getOrCreateProfile\<close> returns the row of the identity when there
  is one; otherwise the row of the email, with its identity set to the given one in the
  table; otherwise a new row, appended to the table when the store takes it, whose name is
  the email's local part, the text before \<open>@\<close>. When a call returns a profile, a second
  call with the same identity on the resulting table returns the same profile and leaves
  the table as it is, whatever email it is given.
\<close>

theorem getOrCreateProfile_three_steps:
  assumes "distinct (map UserProfileRow.id tbl)"
    and "length (filter (\<lambda>row. UserProfileRow.user_id row = userId) tbl) \<le> 1"
    and "length (filter (\<lambda>row. UserProfileRow.email row = address) tbl) \<le> 1"
  shows "getOrCreateProfile accepts generatedId userId address tbl =
     (case find (\<lambda>row. UserProfileRow.user_id row = userId) tbl of
        Some existing \<Rightarrow> (Some existing, tbl)
      | None \<Rightarrow>
          (case find (\<lambda>row. UserProfileRow.email row = address) tbl of
             Some byEmail \<Rightarrow>
               (Some (byEmail\<lparr>user_id := userId\<rparr>),
                map (\<lambda>row. if UserProfileRow.id row = UserProfileRow.id byEmail
                           then row\<lparr>user_id := userId\<rparr> else row) tbl)
           | None \<Rightarrow>
               (if accepts tbl
                     \<lparr>UserProfileRow.id = generatedId tbl, user_id = userId,
                      name = Some (emailLocalPart address), email = address,
                      phone = None, avatar_url = None\<rparr>
                then (Some \<lparr>UserProfileRow.id = generatedId tbl, user_id = userId,
                            name = Some (emailLocalPart address), email = address,
                            phone = None, avatar_url = None\<rparr>,
                      tbl @ [\<lparr>UserProfileRow.id = generatedId tbl, user_id = userId,
                              name = Some (emailLocalPart address), email = address,
                              phone = None, avatar_url = None\<rparr>])
                else (None, tbl))))
     \<and> (CHR ''@'' \<notin> set localPart
          \<longrightarrow> emailLocalPart (localPart @ CHR ''@'' # domain) = localPart)
     \<and> (getOrCreateProfile accepts generatedId userId address tbl = (Some prof, tbl')
          \<longrightarrow> getOrCreateProfile accepts' generatedId' userId address' tbl' = (Some prof, tbl'))"
  using getOrCreateProfile_find [OF assms] getOrCreateProfile_again [OF assms(2)]
    emailLocalPart_before_at
  by blast

text \<open>
  C7 on a table that holds one profile created before authentication: the first call
  adopts it, the second call, with another email and a store that takes no insert,
  returns the same profile.
\<close>

theorem getOrCreateProfile_three_steps_witness:
  "distinct (map UserProfileRow.id [guestProfile])
   \<and> length (filter (\<lambda>row. UserProfileRow.user_id row = ''u1'') [guestProfile]) \<le> 1
   \<and> length (filter (\<lambda>row. UserProfileRow.email row = ''ann@x.org'') [guestProfile]) \<le> 1
   \<and> CHR ''@'' \<notin> set ''ann''
   \<and> getOrCreateProfile (\<lambda>rows row. True) (\<lambda>rows. ''p2'') ''u1'' ''ann@x.org'' [guestProfile]
       = (Some (guestProfile\<lparr>user_id := ''u1''\<rparr>), [guestProfile\<lparr>user_id := ''u1''\<rparr>])
   \<and> getOrCreateProfile (\<lambda>rows row. False) (\<lambda>rows. ''p3'') ''u1'' ''other@x.org''
         [guestProfile\<lparr>user_id := ''u1''\<rparr>]
       = (Some (guestProfile\<lparr>user_id := ''u1''\<rparr>), [guestProfile\<lparr>user_id := ''u1''\<rparr>])
   \<and> emailLocalPart ''ann@x.org'' = ''ann''"
proof -
  have ids: "distinct (map UserProfileRow.id [guestProfile])"
    and users: "length (filter (\<lambda>row. UserProfileRow.user_id row = ''u1'') [guestProfile]) \<le> 1"
    and emails: "length (filter (\<lambda>row. UserProfileRow.email row = ''ann@x.org'')
                   [guestProfile]) \<le> 1"
    and at: "CHR ''@'' \<notin> set ''ann''"
    by simp_all
  have first: "getOrCreateProfile (\<lambda>rows row. True) (\<lambda>rows. ''p2'') ''u1'' ''ann@x.org''
        [guestProfile]
      = (Some (guestProfile\<lparr>user_id := ''u1''\<rparr>), [guestProfile\<lparr>user_id := ''u1''\<rparr>])"
    by (simp add: getOrCreateProfile_def single_def guestProfile_def Let_def)
  note inst = getOrCreateProfile_three_steps [OF ids users emails,
      of "\<lambda>rows row. True" "\<lambda>rows. ''p2''" "''ann''" "''x.org''"
         "guestProfile\<lparr>user_id := ''u1''\<rparr>" "[guestProfile\<lparr>user_id := ''u1''\<rparr>]"
         "\<lambda>rows row. False" "\<lambda>rows. ''p3''" "''other@x.org''"]
  from inst first
  have again: "getOrCreateProfile (\<lambda>rows row. False) (\<lambda>rows. ''p3'') ''u1'' ''other@x.org''
         [guestProfile\<lparr>user_id := ''u1''\<rparr>]
       = (Some (guestProfile\<lparr>user_id := ''u1''\<rparr>), [guestProfile\<lparr>user_id := ''u1''\<rparr>])"
    by blast
  from inst at have "emailLocalPart (''ann'' @ CHR ''@'' # ''x.org'') = ''ann''"
    by blast
  then have "emailLocalPart ''ann@x.org'' = ''ann''" by simp
  with ids users emails at first again show ?thesis by blast
qed

section \<open>Default address\<close>

lemma key_filter_distinct:
  "distinct (map f xs) \<Longrightarrow> k \<in> f ` set xs \<Longrightarrow> map f (filter (\<lambda>y. f y = k) xs) = [k]"
  using filter_key_distinct [of f xs] by auto

lemma reducer_default_ids:
  "map UserAddress.id
     (filter UserAddress.isDefault
        (map (\<lambda>addr. addr\<lparr>UserAddress.isDefault := (UserAddress.id addr = i)\<rparr>) addrs))
   = map UserAddress.id (filter (\<lambda>addr. UserAddress.id addr = i) addrs)"
  by (induction addrs) simp_all

lemma reducer_ids:
  "map UserAddress.id
     (map (\<lambda>addr. addr\<lparr>UserAddress.isDefault := (UserAddress.id addr = i)\<rparr>) addrs)
   = map UserAddress.id addrs"
  by (induction addrs) simp_all

lemma service_rows:
  "UserProfileService_setDefaultAddress i pid tbl
   = map (\<lambda>row. if user_profile_id row = pid
                then row\<lparr>is_default := (UserAddressRow.id row = i)\<rparr> else row) tbl"
  by (induction tbl)
     (simp_all add: UserProfileService_setDefaultAddress_def setNewDefault_def unsetDefaults_def)

lemma default_ids_getAddresses:
  "map UserAddressRow.id (filter is_default (getAddresses pid tbl))
   = map UserAddressRow.id
       (sort_key (\<lambda>row. \<not> is_default row)
          (sort_key (\<lambda>row. - int (created_at row))
             (filter (\<lambda>row. is_default row \<and> user_profile_id row = pid) tbl)))"
  by (simp add: getAddresses_def filter_sort conj_commute)

lemma service_defaults:
  "filter (\<lambda>row. is_default row \<and> user_profile_id row = pid)
     (UserProfileService_setDefaultAddress i pid tbl)
   = map (\<lambda>row. row\<lparr>is_default := True\<rparr>)
       (filter (\<lambda>row. UserAddressRow.id row = i \<and> user_profile_id row = pid) tbl)"
  unfolding service_rows by (induction tbl) auto

lemma unset_no_defaults:
  "filter (\<lambda>row. is_default row \<and> user_profile_id row = pid) (unsetDefaults pid tbl) = []"
  by (induction tbl) (simp_all add: unsetDefaults_def)

lemma target_row:
  assumes "distinct (map UserAddressRow.id tbl)"
    and "row \<in> set tbl" and "UserAddressRow.id row = i" and "user_profile_id row = pid"
  shows "filter (\<lambda>row. UserAddressRow.id row = i \<and> user_profile_id row = pid) tbl = [row]"
proof -
  have "filter (\<lambda>r. UserAddressRow.id r = i \<and> user_profile_id r = pid) tbl
      = filter (\<lambda>r. user_profile_id r = pid) (filter (\<lambda>r. UserAddressRow.id r = i) tbl)"
    by (simp add: conj_commute)
  also have "filter (\<lambda>r. UserAddressRow.id r = i) tbl = [row]"
    using filter_key_distinct [OF assms(1,2)] assms(3) by simp
  finally show ?thesis using assms(4) by simp
qed

lemma remote_default_ids:
  assumes "distinct (map UserAddressRow.id tbl)"
    and "\<exists>row \<in> set tbl. UserAddressRow.id row = i \<and> user_profile_id row = pid"
  shows "map UserAddressRow.id
           (filter is_default (getAddresses pid (UserProfileService_setDefaultAddress i pid tbl)))
         = [i]"
proof -
  from assms(2) obtain row where "row \<in> set tbl" "UserAddressRow.id row = i"
    "user_profile_id row = pid" by blast
  with assms(1) have "filter (\<lambda>row. UserAddressRow.id row = i \<and> user_profile_id row = pid) tbl
      = [row]" by (rule target_row)
  with \<open>UserAddressRow.id row = i\<close> show ?thesis
    by (simp add: default_ids_getAddresses service_defaults)
qed

lemma local_default_ids:
  "map UserAddress.id (filter UserAddress.isDefault (map toLocalAddress rows))
   = map UserAddressRow.id (filter is_default rows)"
  by (induction rows) (simp_all add: toLocalAddress_def)

text \<open>
  C8: when the provider works on the local state only (no stored user id, or the guest
  profile), the address ids are distinct and one of them is \<open>i\<close>, then after
  \<open>setDefaultAddress(i)\<close> the addresses flagged as default are exactly the one with id
  \<open>i\<close>. When it works on the remote table, the row ids are distinct and the profile has a
  row with id \<open>j\<close>, then after \<open>setDefaultAddress(j)\<close> the same holds of the local
  addresses and of the rows \<open>getAddresses\<close> returns; the table is the result of first
  clearing the flag on all rows of the profile, which leaves the profile without a default,
  and then setting it on the target.
\<close>

theorem setDefaultAddress_one_default:
  "(profile state = Some prof
      \<and> (userId = None \<or> userId = Some [] \<or> UserProfile.id prof = ''default-user'')
      \<and> distinct (map UserAddress.id (UserProfile.addresses prof))
      \<and> i \<in> UserAddress.id ` set (UserProfile.addresses prof)
    \<longrightarrow> (\<exists>prof'. profile (fst (setDefaultAddress userId i (state, tbl))) = Some prof'
           \<and> map UserAddress.id (filter UserAddress.isDefault (UserProfile.addresses prof'))
               = [i]
           \<and> map UserAddress.id (UserProfile.addresses prof')
               = map UserAddress.id (UserProfile.addresses prof))
        \<and> snd (setDefaultAddress userId i (state, tbl)) = tbl)
   \<and> (profile rstate = Some rprof \<and> ruserId = Some uid \<and> uid \<noteq> []
      \<and> UserProfile.id rprof \<noteq> ''default-user''
      \<and> distinct (map UserAddressRow.id rtbl)
      \<and> (\<exists>row \<in> set rtbl. UserAddressRow.id row = j
            \<and> user_profile_id row = UserProfile.id rprof)
    \<longrightarrow> (\<exists>prof'. profile (fst (setDefaultAddress ruserId j (rstate, rtbl))) = Some prof'
           \<and> map UserAddress.id (filter UserAddress.isDefault (UserProfile.addresses prof'))
               = [j])
        \<and> snd (setDefaultAddress ruserId j (rstate, rtbl))
            = setNewDefault j (UserProfile.id rprof) (unsetDefaults (UserProfile.id rprof) rtbl)
        \<and> filter is_default
             (getAddresses (UserProfile.id rprof) (unsetDefaults (UserProfile.id rprof) rtbl))
            = []
        \<and> map UserAddressRow.id
             (filter is_default
                (getAddresses (UserProfile.id rprof)
                   (snd (setDefaultAddress ruserId j (rstate, rtbl)))))
            = [j])"
proof (intro conjI impI; (elim conjE)?)
  assume prof: "profile state = Some prof"
    and guest: "userId = None \<or> userId = Some [] \<or> UserProfile.id prof = ''default-user''"
    and dist: "distinct (map UserAddress.id (UserProfile.addresses prof))"
    and mem: "i \<in> UserAddress.id ` set (UserProfile.addresses prof)"
  from prof guest
  have run: "setDefaultAddress userId i (state, tbl)
      = (userReducer state (SET_DEFAULT_ADDRESS i), tbl)"
    by (auto simp: setDefaultAddress_def)
  from dist mem
  have "map UserAddress.id (filter (\<lambda>addr. UserAddress.id addr = i) (UserProfile.addresses prof))
      = [i]"
    by (rule key_filter_distinct)
  with prof show "\<exists>prof'. profile (fst (setDefaultAddress userId i (state, tbl))) = Some prof'
      \<and> map UserAddress.id (filter UserAddress.isDefault (UserProfile.addresses prof')) = [i]
      \<and> map UserAddress.id (UserProfile.addresses prof')
          = map UserAddress.id (UserProfile.addresses prof)"
    unfolding run by (simp add: reducer_default_ids reducer_ids)
  show "snd (setDefaultAddress userId i (state, tbl)) = tbl"
    unfolding run by simp
next
  assume prof: "profile rstate = Some rprof"
    and user: "ruserId = Some uid" "uid \<noteq> []"
    and member: "UserProfile.id rprof \<noteq> ''default-user''"
    and dist: "distinct (map UserAddressRow.id rtbl)"
    and mem: "\<exists>row \<in> set rtbl. UserAddressRow.id row = j
            \<and> user_profile_id row = UserProfile.id rprof"
  let ?pid = "UserProfile.id rprof"
  let ?stored = "UserProfileService_setDefaultAddress j ?pid rtbl"
  from prof user member
  have run: "setDefaultAddress ruserId j (rstate, rtbl)
      = (userReducer rstate
           (SET_PROFILE (rprof\<lparr>UserProfile.addresses :=
              map toLocalAddress (getAddresses ?pid ?stored)\<rparr>)), ?stored)"
    by (simp add: setDefaultAddress_def Let_def)
  have ids: "map UserAddressRow.id (filter is_default (getAddresses ?pid ?stored)) = [j]"
    using dist mem by (rule remote_default_ids)
  then show "\<exists>prof'. profile (fst (setDefaultAddress ruserId j (rstate, rtbl))) = Some prof'
      \<and> map UserAddress.id (filter UserAddress.isDefault (UserProfile.addresses prof')) = [j]"
    unfolding run by (simp add: local_default_ids)
  show "snd (setDefaultAddress ruserId j (rstate, rtbl))
      = setNewDefault j ?pid (unsetDefaults ?pid rtbl)"
    unfolding run by (simp add: UserProfileService_setDefaultAddress_def)
  have "map UserAddressRow.id (filter is_default (getAddresses ?pid (unsetDefaults ?pid rtbl)))
      = []"
    by (simp add: default_ids_getAddresses unset_no_defaults)
  then show "filter is_default (getAddresses ?pid (unsetDefaults ?pid rtbl)) = []"
    by simp
  show "map UserAddressRow.id
      (filter is_default (getAddresses ?pid (snd (setDefaultAddress ruserId j (rstate, rtbl)))))
      = [j]"
    unfolding run using ids by simp
qed

text \<open>
  C8 on a guest profile with two addresses and on a remote table with two rows of the
  profile and one row of another profile.
\<close>

theorem setDefaultAddress_one_default_witness:
  "profile guestState \<noteq> None
   \<and> distinct (map UserAddress.id (UserProfile.addresses (the (profile guestState))))
   \<and> ''address_2'' \<in> UserAddress.id ` set (UserProfile.addresses (the (profile guestState)))
   \<and> map UserAddress.isDefault (UserProfile.addresses (the (profile
         (fst (setDefaultAddress None ''address_2'' (guestState, addressTable))))))
       = [False, True]
   \<and> profile memberState \<noteq> None
   \<and> UserProfile.id (the (profile memberState)) \<noteq> ''default-user''
   \<and> distinct (map UserAddressRow.id addressTable)
   \<and> (\<exists>row \<in> set addressTable. UserAddressRow.id row = ''a2''
         \<and> user_profile_id row = UserProfile.id (the (profile memberState)))
   \<and> map is_default (snd (setDefaultAddress (Some ''u1'') ''a2'' (memberState, addressTable)))
       = [False, True, True]
   \<and> map UserAddressRow.id (filter is_default (getAddresses ''p1''
         (snd (setDefaultAddress (Some ''u1'') ''a2'' (memberState, addressTable))))) = [''a2'']
   \<and> (\<exists>prof'. profile (fst (setDefaultAddress (Some ''u1'') ''a2'' (memberState, addressTable)))
           = Some prof'
         \<and> map UserAddress.id (filter UserAddress.isDefault (UserProfile.addresses prof'))
             = [''a2''])"
proof -
  let ?guest = "the (profile guestState)" and ?member = "the (profile memberState)"
  have g1: "profile guestState = Some ?guest"
    and g2: "distinct (map UserAddress.id (UserProfile.addresses ?guest))"
    and g3: "''address_2'' \<in> UserAddress.id ` set (UserProfile.addresses ?guest)"
    by (simp_all add: guestState_def)
  have m1: "profile memberState = Some ?member"
    and m2: "UserProfile.id ?member \<noteq> ''default-user''"
    and m3: "distinct (map UserAddressRow.id addressTable)"
    and m4: "\<exists>row \<in> set addressTable. UserAddressRow.id row = ''a2''
         \<and> user_profile_id row = UserProfile.id ?member"
    and m5: "UserProfile.id ?member = ''p1''"
    by (simp_all add: memberState_def addressTable_def)
  note inst = setDefaultAddress_one_default [where state = guestState and prof = ?guest
      and userId = None and i = "''address_2''" and tbl = addressTable
      and rstate = memberState and rprof = ?member and ruserId = "Some ''u1''"
      and uid = "''u1''" and j = "''a2''" and rtbl = addressTable]
  have local: "map UserAddress.isDefault (UserProfile.addresses (the (profile
         (fst (setDefaultAddress None ''address_2'' (guestState, addressTable))))))
       = [False, True]"
    by (simp add: setDefaultAddress_def guestState_def)
  have m0: "''u1'' \<noteq> []" by simp
  from inst m0 m1 m2 m3 m4
  have remote: "(\<exists>prof'. profile (fst (setDefaultAddress (Some ''u1'') ''a2''
            (memberState, addressTable))) = Some prof'
         \<and> map UserAddress.id (filter UserAddress.isDefault (UserProfile.addresses prof'))
             = [''a2''])"
    and stored: "snd (setDefaultAddress (Some ''u1'') ''a2'' (memberState, addressTable))
        = setNewDefault ''a2'' (UserProfile.id ?member)
            (unsetDefaults (UserProfile.id ?member) addressTable)"
    and fetched: "map UserAddressRow.id (filter is_default (getAddresses (UserProfile.id ?member)
         (snd (setDefaultAddress (Some ''u1'') ''a2'' (memberState, addressTable))))) = [''a2'']"
    by blast+
  have flags: "map is_default
      (snd (setDefaultAddress (Some ''u1'') ''a2'' (memberState, addressTable)))
       = [False, True, True]"
    unfolding stored m5
    by (simp add: setNewDefault_def unsetDefaults_def addressTable_def)
  from g1 g2 g3 m1 m2 m3 m4 local remote flags fetched [unfolded m5] show ?thesis
    by blast
qed

end
